theory Spec2Isabelle
  imports Main
begin

section \<open>JavaScript strings, values and regular expressions\<close>

text \<open>
  A JavaScript string is modelled as a \<^typ>\<open>string\<close>; a character stands for one code
  unit in the range 0..255. An option that the command line may leave out is a
  \<^typ>\<open>string option\<close> (\<open>None\<close> is \<open>undefined\<close>); a thrown \<open>Error\<close> is a value.
\<close>

datatype error = Error string

datatype js_exn = TypeError

definition dquote :: char where
  "dquote = CHR 0x22"

definition backslash :: char where
  "backslash = CHR 0x5C"

text \<open>Truthiness of an optional string: \<open>undefined\<close> and \<open>""\<close> are falsy.\<close>

fun truthy :: "string option \<Rightarrow> bool" where
  "truthy None = False"
| "truthy (Some s) = (s \<noteq> [])"

text \<open>\<open>String.prototype.trim\<close>: the white space and line terminators below code unit 256.\<close>

definition is_space :: "char \<Rightarrow> bool" where
  "is_space c = (c \<in> set [CHR 0x09, CHR 0x0A, CHR 0x0B, CHR 0x0C, CHR 0x0D, CHR 0x20, CHR 0xA0])"

definition trim :: "string \<Rightarrow> string" where
  "trim s = rev (dropWhile is_space (rev (dropWhile is_space s)))"

text \<open>\<open>s.startsWith(p)\<close> and \<open>s.includes(p)\<close>.\<close>

fun starts_with :: "string \<Rightarrow> string \<Rightarrow> bool" where
  "starts_with s [] = True"
| "starts_with [] (p # ps) = False"
| "starts_with (c # cs) (p # ps) = (c = p \<and> starts_with cs ps)"

fun includes_str :: "string \<Rightarrow> string \<Rightarrow> bool" where
  "includes_str [] p = (p = [])"
| "includes_str (c # cs) p = (starts_with (c # cs) p \<or> includes_str cs p)"

text \<open>\<open>s.replace(/"/g, '\\"')\<close>: every double quote becomes backslash, double quote.\<close>

definition escape :: "string \<Rightarrow> string" where
  "escape s = concat (map (\<lambda>c. if c = dquote then [backslash, dquote] else [c]) s)"

text \<open>\<open>s.replace(pat, rep)\<close> with a string pattern: the first occurrence only.\<close>

fun replace_first :: "string \<Rightarrow> string \<Rightarrow> string \<Rightarrow> string" where
  "replace_first pat rep [] = (if pat = [] then rep else [])"
| "replace_first pat rep (c # cs) =
     (if starts_with (c # cs) pat then rep @ drop (length pat) (c # cs)
      else c # replace_first pat rep cs)"

text \<open>\<open>xs.join(sep)\<close>.\<close>

fun join :: "string \<Rightarrow> string list \<Rightarrow> string" where
  "join sep [] = []"
| "join sep [x] = x"
| "join sep (x # y # ys) = x @ sep @ join sep (y # ys)"

text \<open>\<open>s.split(", ")\<close>: cut at every occurrence of comma, space, leftmost first.\<close>

fun split_acc :: "string \<Rightarrow> string \<Rightarrow> string list" where
  "split_acc acc [] = [rev acc]"
| "split_acc acc [c] = [rev (c # acc)]"
| "split_acc acc (c # d # r) =
     (if c = CHR '','' \<and> d = CHR '' '' then rev acc # split_acc [] r
      else split_acc (c # acc) (d # r))"

definition split_comma_space :: "string \<Rightarrow> string list" where
  "split_comma_space s = split_acc [] s"

text \<open>Template interpolation of a number: its decimal digits.\<close>

definition digit_char :: "nat \<Rightarrow> char" where
  "digit_char n = ''0123456789'' ! (n mod 10)"

function show_nat :: "nat \<Rightarrow> string" where
  "show_nat n = (if n < 10 then [digit_char n] else show_nat (n div 10) @ [digit_char n])"
  by pat_completeness auto
termination
  by (relation "measure id") auto

declare show_nat.simps [simp del]

definition show_int :: "int \<Rightarrow> string" where
  "show_int i = (if i < 0 then CHR ''-'' # show_nat (nat (- i)) else show_nat (nat i))"

text \<open>\<open>parseInt\<close> on a string of decimal digits.\<close>

definition is_digit :: "char \<Rightarrow> bool" where
  "is_digit c = (c \<in> set ''0123456789'')"

definition is_alpha :: "char \<Rightarrow> bool" where
  "is_alpha c = (c \<in> set ''ABCDEFGHIJKLMNOPQRSTUVWXYZabcdefghijklmnopqrstuvwxyz'')"

definition digit_val :: "char \<Rightarrow> int" where
  "digit_val c = int (length (takeWhile (\<lambda>d. d \<noteq> c) ''0123456789''))"

definition parseInt :: "string \<Rightarrow> int" where
  "parseInt s = foldl (\<lambda>n c. 10 * n + digit_val c) 0 (takeWhile is_digit s)"

subsection \<open>The regular expressions of the source\<close>

text \<open>
  The source uses literals, character classes with a bounded or unbounded greedy count
  (each one a capture group or not), and the anchors. A match returns the texts of the
  counted classes in order. Greedy counts back off one character at a time.
\<close>

datatype ritem = Lit string | Rep "char \<Rightarrow> bool" nat "nat option" | End

fun first_some :: "'a option list \<Rightarrow> 'a option" where
  "first_some [] = None"
| "first_some (None # xs) = first_some xs"
| "first_some (Some x # xs) = Some x"

text \<open>\<open>rmatch items s\<close> matches at the start of \<open>s\<close>: the captures and the unread rest.\<close>

fun rmatch :: "ritem list \<Rightarrow> string \<Rightarrow> (string list \<times> string) option" where
  "rmatch [] s = Some ([], s)"
| "rmatch (Lit l # items) s =
     (if starts_with s l then rmatch items (drop (length l) s) else None)"
| "rmatch (End # items) s = (if s = [] then rmatch items s else None)"
| "rmatch (Rep p lo hi # items) s =
     (let avail = length (takeWhile p s);
          most = (case hi of None \<Rightarrow> avail | Some h \<Rightarrow> min h avail)
      in first_some
           (map (\<lambda>k. map_option (\<lambda>(caps, rest). (take k s # caps, rest)) (rmatch items (drop k s)))
                (rev [lo ..< Suc most])))"

text \<open>An unanchored search tries every start position from the left.\<close>

fun rsearch :: "ritem list \<Rightarrow> string \<Rightarrow> (string list \<times> string) option" where
  "rsearch items [] = rmatch items []"
| "rsearch items (c # cs) =
     (case rmatch items (c # cs) of Some m \<Rightarrow> Some m | None \<Rightarrow> rsearch items cs)"

text \<open>\<open>re.test(s)\<close> for a pattern that starts with \<open>^\<close>.\<close>

definition regex_test :: "ritem list \<Rightarrow> string \<Rightarrow> bool" where
  "regex_test items s = (rmatch items s \<noteq> None)"

text \<open>\<open>s.replace(re, rep)\<close> for a pattern that starts with \<open>^\<close> and has no \<open>g\<close> flag.\<close>

definition regex_replace :: "ritem list \<Rightarrow> string \<Rightarrow> string \<Rightarrow> string" where
  "regex_replace items rep s = (case rmatch items s of Some (caps, rest) \<Rightarrow> rep @ rest | None \<Rightarrow> s)"

text \<open>\<open>xs.indexOf(x)\<close>; the source's \<open>-1\<close> is \<open>None\<close>.\<close>

fun indexOf :: "'a list \<Rightarrow> 'a \<Rightarrow> nat option" where
  "indexOf [] x = None"
| "indexOf (y # ys) x = (if y = x then Some 0 else map_option Suc (indexOf ys x))"

subsection \<open>Values returned by the script bridge\<close>

datatype jsval = JNull | JStr string | JNum int | JBool bool | JArr "string list"

text \<open>An object is a finite map from property names; a missing property reads \<open>undefined\<close>.\<close>

type_synonym jsobj = "string \<rightharpoonup> jsval"

fun js_truthy :: "jsval option \<Rightarrow> bool" where
  "js_truthy None = False"
| "js_truthy (Some JNull) = False"
| "js_truthy (Some (JStr s)) = (s \<noteq> [])"
| "js_truthy (Some (JNum n)) = (n \<noteq> 0)"
| "js_truthy (Some (JBool b)) = b"
| "js_truthy (Some (JArr xs)) = True"

section \<open>The host: the engine's \<open>Date\<close>\<close>

text \<open>
  The \<open>Date\<close> object belongs to the JavaScript engine, not to the program; the program
  is modelled over any host. \<open>Date_new s\<close> is \<open>new Date(s)\<close>, with \<open>None\<close> for a date
  whose \<open>getTime()\<close> is \<open>NaN\<close>; \<open>Date_of_fields\<close> is the constructor from year, month
  index, day, hour, minute, second in local time.
\<close>

record 'd host =
  Date_new :: "string \<Rightarrow> 'd option"
  Date_of_fields :: "int \<Rightarrow> int \<Rightarrow> int \<Rightarrow> int \<Rightarrow> int \<Rightarrow> int \<Rightarrow> 'd"
  getFullYear :: "'d \<Rightarrow> int"
  getMonth :: "'d \<Rightarrow> int"
  getDate :: "'d \<Rightarrow> int"
  toDateString :: "'d \<Rightarrow> string"
  toISOString :: "'d \<Rightarrow> string"

section \<open>Date utilities (\<open>lib/date-utils.js\<close>)\<close>

text \<open>\<open>/^\d{4}-\d{2}-\d{2}$/\<close>\<close>

definition dateRegex :: "ritem list" where
  "dateRegex = [Rep is_digit 4 (Some 4), Lit ''-'', Rep is_digit 2 (Some 2), Lit ''-'',
                Rep is_digit 2 (Some 2), End]"

definition validateDateString :: "'d host \<Rightarrow> string \<Rightarrow> error + 'd" where
  "validateDateString h dateStr =
     (if dateStr = [] then Inl (Error ''Date cannot be empty'')
      else if \<not> regex_test dateRegex dateStr then Inl (Error ''Due date must be in YYYY-MM-DD format'')
      else case Date_new h dateStr of
             None \<Rightarrow> Inl (Error ''Invalid due date provided'')
           | Some date \<Rightarrow> Inr date)"

definition generateAppleScriptDate :: "'d host \<Rightarrow> 'd \<Rightarrow> string \<Rightarrow> string" where
  "generateAppleScriptDate h date varName =
     (let month = getMonth h date + 1;
          day = getDate h date;
          year = getFullYear h date
      in join ''\<newline>  ''
           [''set '' @ varName @ '' to current date'',
            ''set month of '' @ varName @ '' to '' @ show_int month,
            ''set day of '' @ varName @ '' to '' @ show_int day,
            ''set year of '' @ varName @ '' to '' @ show_int year,
            ''set time of '' @ varName @ '' to 0''])"

text \<open>\<open>/^[A-Za-z]+ /\<close>\<close>

definition weekdayRegex :: "ritem list" where
  "weekdayRegex = [Rep is_alpha 1 None, Lit '' '']"

text \<open>\<open>/(\d{1,2}) ([A-Za-z]+) (\d{4}) at (\d{1,2}):(\d{2}):(\d{2})/\<close>\<close>

definition dateTextRegex :: "ritem list" where
  "dateTextRegex = [Rep is_digit 1 (Some 2), Lit '' '', Rep is_alpha 1 None, Lit '' '',
                    Rep is_digit 4 (Some 4), Lit '' at '', Rep is_digit 1 (Some 2), Lit '':'',
                    Rep is_digit 2 (Some 2), Lit '':'', Rep is_digit 2 (Some 2)]"

definition monthNames :: "string list" where
  "monthNames = [''January'', ''February'', ''March'', ''April'', ''May'', ''June'',
                 ''July'', ''August'', ''September'', ''October'', ''November'', ''December'']"

text \<open>The manual parse: the destructured match, the month table, the constructor.\<close>

fun date_of_match :: "'d host \<Rightarrow> string list \<Rightarrow> 'd option" where
  "date_of_match h [day, month, year, hour, minute, second] =
     (case indexOf monthNames month of
        None \<Rightarrow> None
      | Some monthIndex \<Rightarrow>
          Some (Date_of_fields h (parseInt year) (int monthIndex) (parseInt day)
                  (parseInt hour) (parseInt minute) (parseInt second)))"
| "date_of_match h caps = None"

text \<open>
  The body of the \<open>try\<close> block. A value that is not a string has no \<open>replace\<close> method:
  the call throws a \<open>TypeError\<close>.
\<close>

definition parse_body :: "'d host \<Rightarrow> jsval \<Rightarrow> js_exn + 'd option" where
  "parse_body h v =
     (case v of
        JStr dateStr \<Rightarrow>
          (let cleanStr = replace_first '' at '' '' '' (regex_replace weekdayRegex [] dateStr)
           in case Date_new h cleanStr of
                Some date \<Rightarrow> Inr (Some date)
              | None \<Rightarrow>
                  (case rsearch dateTextRegex dateStr of
                     Some (caps, rest) \<Rightarrow> Inr (date_of_match h caps)
                   | None \<Rightarrow> Inr None))
      | _ \<Rightarrow> Inl TypeError)"

definition parseAppleScriptDate :: "'d host \<Rightarrow> jsval \<Rightarrow> 'd option" where
  "parseAppleScriptDate h dateStr =
     (if \<not> js_truthy (Some dateStr) \<or> dateStr = JStr ''missing value'' then None
      else case parse_body h dateStr of Inl exn \<Rightarrow> None | Inr r \<Rightarrow> r)"

definition dateFields :: "string list" where
  "dateFields = [''creationDate'', ''modificationDate'', ''dueDate'', ''activationDate'',
                 ''completionDate'', ''cancellationDate'']"

definition clean_sentinel :: "jsval \<Rightarrow> jsval" where
  "clean_sentinel v = (if v = JStr ''missing value'' \<or> v = JStr ''null'' then JNull else v)"

definition convert_field :: "'d host \<Rightarrow> string \<Rightarrow> jsobj \<Rightarrow> jsobj" where
  "convert_field h field cleaned =
     (case cleaned field of
        None \<Rightarrow> cleaned
      | Some v \<Rightarrow>
          if js_truthy (Some v) \<and> v \<noteq> JNull then
            (case parseAppleScriptDate h v of
               Some parsedDate \<Rightarrow> cleaned(field \<mapsto> JStr (toISOString h parsedDate))
             | None \<Rightarrow> cleaned)
          else cleaned)"

definition convertTodoDateFields :: "'d host \<Rightarrow> jsobj \<Rightarrow> jsobj" where
  "convertTodoDateFields h todo =
     (let cleaned = (\<lambda>key. map_option clean_sentinel (todo key))
      in fold (convert_field h) dateFields cleaned)"

section \<open>The script bridge (\<open>lib/applescript.js\<close>)\<close>

text \<open>The bridge either fails with a message or returns a parsed value.\<close>

datatype 'r outcome = Failed string | Returned 'r

definition executeAppleScript :: "(string \<Rightarrow> 'r outcome) \<Rightarrow> string \<Rightarrow> error + 'r" where
  "executeAppleScript osascript script =
     (case osascript script of
        Failed errorMessage \<Rightarrow>
          Inl (Error
            (if includes_str errorMessage ''not found''
               then ''Item not found. Please check the name and try again.''
             else if includes_str errorMessage ''Things3'' \<or> includes_str errorMessage ''not running''
               then ''Things 3 error. Make sure the app is running and accessible.''
             else if includes_str errorMessage ''Application isn't running''
               then ''Things 3 is not running. Please open Things 3 and try again.''
             else errorMessage))
      | Returned result \<Rightarrow> Inr result)"

section \<open>The commands (\<open>index.js\<close>)\<close>

text \<open>
  The options object of a command; an option that was not given is \<open>None\<close> (a flag:
  \<open>False\<close>). Each builder returns the script it hands to the bridge, or the error it
  throws before that.
\<close>

record options =
  title :: "string option"
  notes_opt :: "string option"
  due :: "string option"
  tags :: "string option"
  list_opt :: "string option"
  project :: "string option"
  projectId :: "string option"
  area :: "string option"
  areaId :: "string option"
  noProject :: bool
  noArea :: bool

text \<open>\<open>if (options.x)\<close>: the value when it is truthy.\<close>

definition given :: "string option \<Rightarrow> string option" where
  "given x = (if truthy x then x else None)"

definition blank :: "string \<Rightarrow> bool" where
  "blank s = (s = [] \<or> length (trim s) = 0)"

definition validLists :: "string list" where
  "validLists = [''Inbox'', ''Today'', ''Anytime'', ''Someday'', ''Upcoming'']"

definition tell_line :: string where
  \<open>tell_line = ''tell application "Things3"\<newline>''\<close>

text \<open>The property list of the creation statement: name, then notes, then tags.\<close>

definition todo_properties :: "string \<Rightarrow> options \<Rightarrow> string list" where
  \<open>todo_properties ttl opts =
     [''name:"'' @ escape ttl @ ''"''] @
     (case given (notes_opt opts) of Some n \<Rightarrow> [''notes:"'' @ escape n @ ''"''] | None \<Rightarrow> []) @
     (case given (tags opts) of Some tg \<Rightarrow> [''tag names:"'' @ escape tg @ ''"''] | None \<Rightarrow> [])\<close>

text \<open>The \<open>if\<close>/\<open>else if\<close> chain that appends the place of the new to-do.\<close>

definition attach_clause :: "options \<Rightarrow> string" where
  \<open>attach_clause opts =
     (case given (list_opt opts) of
        Some l \<Rightarrow> '' at beginning of list "'' @ l @ ''"''
      | None \<Rightarrow>
     (case given (projectId opts) of
        Some pid \<Rightarrow> '' at beginning of project id "'' @ escape pid @ ''"''
      | None \<Rightarrow>
     (case given (project opts) of
        Some p \<Rightarrow> '' at beginning of project "'' @ escape p @ ''"''
      | None \<Rightarrow>
     (case given (areaId opts) of
        Some aid \<Rightarrow> '' at beginning of area id "'' @ escape aid @ ''"''
      | None \<Rightarrow>
     (case given (area opts) of
        Some a \<Rightarrow> '' at beginning of area "'' @ escape a @ ''"''
      | None \<Rightarrow> [])))))\<close>

definition invalid_list_error :: error where
  "invalid_list_error = Error (''Invalid list. Valid lists are: '' @ join '', '' validLists)"

text \<open>\<open>addTodo\<close> of \<open>index.js\<close>: the due date is set after the to-do is made.\<close>

definition addTodo :: "'d host \<Rightarrow> string \<Rightarrow> options \<Rightarrow> error + string" where
  \<open>addTodo h ttl opts =
     (if blank ttl then Inl (Error ''To-do title cannot be empty'')
      else
        case (case given (due opts) of
                None \<Rightarrow> Inr None
              | Some d \<Rightarrow> (case validateDateString h d of Inl e \<Rightarrow> Inl e | Inr date \<Rightarrow> Inr (Some date)))
        of
          Inl e \<Rightarrow> Inl e
        | Inr dueDate \<Rightarrow>
            (case (case given (list_opt opts) of
                     Some l \<Rightarrow> if l \<notin> set validLists then Inl invalid_list_error else Inr ()
                   | None \<Rightarrow> Inr ())
             of
               Inl e \<Rightarrow> Inl e
             | Inr u \<Rightarrow>
                 Inr (tell_line @
                      ''  set newToDo to make new to do with properties {'' @
                      join '', '' (todo_properties ttl opts) @ ''}'' @
                      attach_clause opts @
                      ''\<newline>'' @
                      (case dueDate of
                         Some date \<Rightarrow>
                           ''  '' @ generateAppleScriptDate h date ''tempDate'' @ ''\<newline>'' @
                           ''  set due date of newToDo to tempDate\<newline>''
                       | None \<Rightarrow> []) @
                      ''end tell'')))\<close>

text \<open>
  \<open>addTodo\<close> of the second copy of the program: the due date is a property of the
  creation statement, written with \<open>toDateString\<close>.
\<close>

definition alt_properties :: "'d host \<Rightarrow> string \<Rightarrow> options \<Rightarrow> string list" where
  \<open>alt_properties h ttl opts =
     [''name:"'' @ escape ttl @ ''"''] @
     (case given (notes_opt opts) of Some n \<Rightarrow> [''notes:"'' @ escape n @ ''"''] | None \<Rightarrow> []) @
     (case given (due opts) of
        Some d \<Rightarrow>
          [''due date:date "'' @
           (case Date_new h d of Some dueDate \<Rightarrow> toDateString h dueDate | None \<Rightarrow> ''Invalid Date'') @
           ''"'']
      | None \<Rightarrow> []) @
     (case given (tags opts) of Some tg \<Rightarrow> [''tag names:"'' @ escape tg @ ''"''] | None \<Rightarrow> [])\<close>

definition addTodo_alt :: "'d host \<Rightarrow> string \<Rightarrow> options \<Rightarrow> error + string" where
  \<open>addTodo_alt h ttl opts =
     (if blank ttl then Inl (Error ''To-do title cannot be empty'')
      else
        case (case given (due opts) of
                None \<Rightarrow> Inr ()
              | Some d \<Rightarrow>
                  if \<not> regex_test dateRegex d then Inl (Error ''Due date must be in YYYY-MM-DD format'')
                  else (case Date_new h d of
                          None \<Rightarrow> Inl (Error ''Invalid due date provided'')
                        | Some dueDate \<Rightarrow> Inr ()))
        of
          Inl e \<Rightarrow> Inl e
        | Inr u \<Rightarrow>
            (case (case given (list_opt opts) of
                     Some l \<Rightarrow> if l \<notin> set validLists then Inl invalid_list_error else Inr ()
                   | None \<Rightarrow> Inr ())
             of
               Inl e \<Rightarrow> Inl e
             | Inr u \<Rightarrow>
                 Inr (tell_line @
                      ''  set newToDo to make new to do with properties {'' @
                      join '', '' (alt_properties h ttl opts) @ ''}'' @
                      attach_clause opts @
                      ''\<newline>end tell'')))\<close>

subsection \<open>Listing\<close>

definition namedLists :: "string list" where
  "namedLists = [''Inbox'', ''Today'', ''Anytime'', ''Someday'', ''Upcoming'', ''Logbook'']"

definition listTodos_resolve :: "string \<Rightarrow> string" where
  \<open>listTodos_resolve container =
     (if container \<in> set namedLists then
        ''  set todoList to to dos of list "'' @ container @ ''"\<newline>''
      else
        ''  try\<newline>'' @
        ''    set todoList to to dos of project id "'' @ container @ ''"\<newline>'' @
        ''  on error\<newline>'' @
        ''    try\<newline>'' @
        ''      set todoList to to dos of project "'' @ container @ ''"\<newline>'' @
        ''    on error\<newline>'' @
        ''      try\<newline>'' @
        ''        set todoList to to dos of area id "'' @ container @ ''"\<newline>'' @
        ''      on error\<newline>'' @
        ''        set todoList to to dos of area "'' @ container @ ''"\<newline>'' @
        ''      end try\<newline>'' @
        ''    end try\<newline>'' @
        ''  end try\<newline>'')\<close>

definition listTodos_collect :: "bool \<Rightarrow> string" where
  \<open>listTodos_collect includeIds =
     (if includeIds then
        ''  set todoData to {}\<newline>'' @
        ''  repeat with aTodo in todoList\<newline>'' @
        ''    set end of todoData to {name:(name of aTodo), id:(id of aTodo)}\<newline>'' @
        ''  end repeat\<newline>'' @
        ''  return todoData\<newline>''
      else
        ''  set todoNames to {}\<newline>'' @
        ''  repeat with aTodo in todoList\<newline>'' @
        ''    set end of todoNames to name of aTodo\<newline>'' @
        ''  end repeat\<newline>'' @
        ''  return todoNames\<newline>'')\<close>

text \<open>The script of \<open>listTodos(container, includeIds)\<close>.\<close>

definition listTodos :: "string \<Rightarrow> bool \<Rightarrow> string" where
  \<open>listTodos container includeIds =
     tell_line @ listTodos_resolve container @ listTodos_collect includeIds @ ''end tell''\<close>

definition listTodosJson_resolve :: "string \<Rightarrow> string" where
  \<open>listTodosJson_resolve container =
     (if container \<in> set namedLists then
        ''  set todoList to to dos of list "'' @ container @ ''"\<newline>''
      else
        ''  try\<newline>'' @
        ''    set todoList to to dos of project "'' @ container @ ''"\<newline>'' @
        ''  on error\<newline>'' @
        ''    set todoList to to dos of area "'' @ container @ ''"\<newline>'' @
        ''  end try\<newline>'')\<close>

definition listTodosJson_records :: string where
  \<open>listTodosJson_records =
      ''  set todoData to {}\<newline>'' @
      ''  repeat with aTodo in todoList\<newline>'' @
      ''    set todoRecord to {}\<newline>'' @
      ''    set todoRecord to todoRecord & {id:(id of aTodo)}\<newline>'' @
      ''    set todoRecord to todoRecord & {name:(name of aTodo)}\<newline>'' @
      ''    set todoRecord to todoRecord & {notes:(notes of aTodo)}\<newline>'' @
      ''    set todoRecord to todoRecord & {status:(status of aTodo as string)}\<newline>'' @
      ''    set todoRecord to todoRecord & {tagNames:(tag names of aTodo)}\<newline>'' @
      ''    set todoRecord to todoRecord & {creationDate:(creation date of aTodo as string)}\<newline>'' @
      ''    set todoRecord to todoRecord & {modificationDate:(modification date of aTodo as string)}\<newline>'' @
      ''    \<newline>'' @
      ''    -- Handle optional dates\<newline>'' @
      ''    try\<newline>'' @
      ''      set todoRecord to todoRecord & {dueDate:(due date of aTodo as string)}\<newline>'' @
      ''    on error\<newline>'' @
      ''      set todoRecord to todoRecord & {dueDate:null}\<newline>'' @
      ''    end try\<newline>'' @
      ''    \<newline>'' @
      ''    try\<newline>'' @
      ''      set todoRecord to todoRecord & {activationDate:(activation date of aTodo as string)}\<newline>'' @
      ''    on error\<newline>'' @
      ''      set todoRecord to todoRecord & {activationDate:null}\<newline>'' @
      ''    end try\<newline>'' @
      ''    \<newline>'' @
      ''    try\<newline>'' @
      ''      set todoRecord to todoRecord & {completionDate:(completion date of aTodo as string)}\<newline>'' @
      ''    on error\<newline>'' @
      ''      set todoRecord to todoRecord & {completionDate:null}\<newline>'' @
      ''    end try\<newline>'' @
      ''    \<newline>'' @
      ''    try\<newline>'' @
      ''      set todoRecord to todoRecord & {cancellationDate:(cancellation date of aTodo as string)}\<newline>'' @
      ''    on error\<newline>'' @
      ''      set todoRecord to todoRecord & {cancellationDate:null}\<newline>'' @
      ''    end try\<newline>'' @
      ''    \<newline>'' @
      ''    -- Handle optional project and area\<newline>'' @
      ''    try\<newline>'' @
      ''      set todoRecord to todoRecord & {project:(name of project of aTodo)}\<newline>'' @
      ''    on error\<newline>'' @
      ''      set todoRecord to todoRecord & {project:null}\<newline>'' @
      ''    end try\<newline>'' @
      ''    \<newline>'' @
      ''    try\<newline>'' @
      ''      set todoRecord to todoRecord & {area:(name of area of aTodo)}\<newline>'' @
      ''    on error\<newline>'' @
      ''      set todoRecord to todoRecord & {area:null}\<newline>'' @
      ''    end try\<newline>'' @
      ''    \<newline>'' @
      ''    set end of todoData to todoRecord\<newline>'' @
      ''  end repeat\<newline>'' @
      ''  return todoData\<newline>'' @
      ''end tell''\<close>

text \<open>The script of \<open>listTodosJson(container)\<close>.\<close>

definition listTodosJson :: "string \<Rightarrow> string" where
  \<open>listTodosJson container = tell_line @ listTodosJson_resolve container @ listTodosJson_records\<close>

text \<open>
  The callback that \<open>listTodosJson\<close> maps over the returned records. A truthy
  \<open>tagNames\<close> that is not a string has no \<open>split\<close> method.
\<close>

definition tags_of :: "jsval option \<Rightarrow> js_exn + string list" where
  "tags_of tagNames =
     (if js_truthy tagNames \<and> tagNames \<noteq> Some (JStr []) then
        (case tagNames of Some (JStr s) \<Rightarrow> Inr (split_comma_space s) | _ \<Rightarrow> Inl TypeError)
      else Inr [])"

definition decode_todo :: "'d host \<Rightarrow> jsobj \<Rightarrow> js_exn + jsobj" where
  "decode_todo h todo =
     (let cleaned = convertTodoDateFields h todo
      in case tags_of (cleaned ''tagNames'') of
           Inl exn \<Rightarrow> Inl exn
         | Inr ts \<Rightarrow> Inr ((cleaned(''tags'' \<mapsto> JArr ts))(''tagNames'' := None)))"

subsection \<open>The other builders\<close>






section \<open>A reference host\<close>

text \<open>
  One host to run the program on, after the engine of node in the time zone UTC. A date
  is held as its calendar fields. \<open>new Date(s)\<close> reads two forms of text: the date-only
  ISO form \<open>YYYY-MM-DD\<close> with a month from 01 to 12 and a day from 01 to 31, and the form
  day, month word, year, time that the cleaned host text has, where a word counts as a
  month by its first three letters in any case. A day past the end of its month is
  carried into the next month by the engine's day arithmetic, and so are the fields of
  the field constructor. Any other text is not a date for this host.
\<close>

record civil =
  c_year :: int
  c_month :: int
  c_day :: int
  c_hour :: int
  c_minute :: int
  c_second :: int

text \<open>Days since 1 January 1970 of a day of a month (1 to 12), and back.\<close>

definition days_from_civil :: "int \<Rightarrow> int \<Rightarrow> int \<Rightarrow> int" where
  "days_from_civil y m d =
     (let y' = (if m \<le> 2 then y - 1 else y);
          era = y' div 400;
          yoe = y' - era * 400;
          doy = (153 * (if m > 2 then m - 3 else m + 9) + 2) div 5 + d - 1;
          doe = yoe * 365 + yoe div 4 - yoe div 100 + doy
      in era * 146097 + doe - 719468)"

definition civil_from_days :: "int \<Rightarrow> int \<times> int \<times> int" where
  "civil_from_days z =
     (let z' = z + 719468;
          era = z' div 146097;
          doe = z' - era * 146097;
          yoe = (doe - doe div 1460 + doe div 36524 - doe div 146096) div 365;
          doy = doe - (365 * yoe + yoe div 4 - yoe div 100);
          mp = (5 * doy + 2) div 153;
          d = doy - (153 * mp + 2) div 5 + 1;
          m = (if mp < 10 then mp + 3 else mp - 9);
          y = yoe + era * 400
      in (if m \<le> 2 then y + 1 else y, m, d))"

text \<open>The date at a number of seconds since the epoch.\<close>

definition civil_of_seconds :: "int \<Rightarrow> civil" where
  "civil_of_seconds t =
     (case civil_from_days (t div 86400) of
        (y, m, d) \<Rightarrow>
          \<lparr>c_year = y, c_month = m - 1, c_day = d,
           c_hour = (t mod 86400) div 3600, c_minute = (t mod 3600) div 60,
           c_second = t mod 60\<rparr>)"

text \<open>The date of year, month index, day and time of day, any of them out of range.\<close>

definition make_date :: "int \<Rightarrow> int \<Rightarrow> int \<Rightarrow> int \<Rightarrow> int \<Rightarrow> int \<Rightarrow> civil" where
  "make_date y mi d hh mm ss =
     civil_of_seconds
       (days_from_civil (y + mi div 12) (mi mod 12 + 1) d * 86400 + hh * 3600 + mm * 60 + ss)"

definition to_lower :: "char \<Rightarrow> char" where
  "to_lower c =
     (case indexOf ''ABCDEFGHIJKLMNOPQRSTUVWXYZ'' c of
        Some i \<Rightarrow> ''abcdefghijklmnopqrstuvwxyz'' ! i
      | None \<Rightarrow> c)"

definition month_of_word :: "string \<Rightarrow> nat option" where
  "month_of_word w =
     indexOf (map (\<lambda>name. map to_lower (take 3 name)) monthNames) (map to_lower (take 3 w))"

definition legacyRegex :: "ritem list" where
  "legacyRegex = [Rep is_digit 1 (Some 2), Lit '' '', Rep is_alpha 3 None, Lit '' '',
                  Rep is_digit 4 (Some 4), Lit '' '', Rep is_digit 1 (Some 2), Lit '':'',
                  Rep is_digit 2 (Some 2), Lit '':'', Rep is_digit 2 (Some 2), End]"

definition ref_Date_iso :: "string list \<Rightarrow> civil option" where
  "ref_Date_iso caps =
     (case caps of
        [y, m, d] \<Rightarrow>
          if 1 \<le> parseInt m \<and> parseInt m \<le> 12 \<and> 1 \<le> parseInt d \<and> parseInt d \<le> 31
          then Some (make_date (parseInt y) (parseInt m - 1) (parseInt d) 0 0 0)
          else None
      | _ \<Rightarrow> None)"

definition ref_Date_legacy :: "string list \<Rightarrow> civil option" where
  "ref_Date_legacy caps =
     (case caps of
        [d, w, y, hh, mm, ss] \<Rightarrow>
          (case month_of_word w of
             None \<Rightarrow> None
           | Some mi \<Rightarrow>
               if 1 \<le> parseInt d \<and> parseInt d \<le> 31
                  \<and> (parseInt hh \<le> 23 \<or> parseInt hh = 24 \<and> parseInt mm = 0 \<and> parseInt ss = 0)
                  \<and> parseInt mm \<le> 59 \<and> parseInt ss \<le> 59
               then Some (make_date
                            (if parseInt y \<le> 49 then 2000 + parseInt y
                             else if parseInt y \<le> 99 then 1900 + parseInt y else parseInt y)
                            (int mi) (parseInt d) (parseInt hh) (parseInt mm) (parseInt ss))
               else None)
      | _ \<Rightarrow> None)"

definition ref_Date_new :: "string \<Rightarrow> civil option" where
  "ref_Date_new s =
     (case rmatch dateRegex s of
        Some (caps, rest) \<Rightarrow> ref_Date_iso caps
      | None \<Rightarrow>
          (case rmatch legacyRegex s of
             Some (caps, rest) \<Rightarrow> ref_Date_legacy caps
           | None \<Rightarrow> None))"

definition ref_Date_of_fields :: "int \<Rightarrow> int \<Rightarrow> int \<Rightarrow> int \<Rightarrow> int \<Rightarrow> int \<Rightarrow> civil" where
  "ref_Date_of_fields y mi d hh mm ss =
     make_date (if 0 \<le> y \<and> y \<le> 99 then 1900 + y else y) mi d hh mm ss"

definition pad :: "nat \<Rightarrow> string \<Rightarrow> string" where
  "pad n s = replicate (n - length s) (CHR ''0'') @ s"

definition weekday_index :: "civil \<Rightarrow> nat" where
  "weekday_index c = nat ((days_from_civil (c_year c) (c_month c + 1) (c_day c) + 4) mod 7)"

definition ref_toDateString :: "civil \<Rightarrow> string" where
  "ref_toDateString c =
     [''Sun'', ''Mon'', ''Tue'', ''Wed'', ''Thu'', ''Fri'', ''Sat''] ! weekday_index c @ '' '' @
     take 3 (monthNames ! nat (c_month c mod 12)) @ '' '' @
     pad 2 (show_int (c_day c)) @ '' '' @ pad 4 (show_int (c_year c))"

definition ref_toISOString :: "civil \<Rightarrow> string" where
  "ref_toISOString c =
     pad 4 (show_int (c_year c)) @ ''-'' @ pad 2 (show_int (c_month c + 1)) @ ''-'' @
     pad 2 (show_int (c_day c)) @ ''T'' @ pad 2 (show_int (c_hour c)) @ '':'' @
     pad 2 (show_int (c_minute c)) @ '':'' @ pad 2 (show_int (c_second c)) @ ''.000Z''"

definition ref_host :: "civil host" where
  "ref_host =
     \<lparr>Date_new = ref_Date_new, Date_of_fields = ref_Date_of_fields,
      getFullYear = c_year, getMonth = c_month, getDate = c_day,
      toDateString = ref_toDateString, toISOString = ref_toISOString\<rparr>"

definition no_options :: options where
  "no_options =
     \<lparr>title = None, notes_opt = None, due = None, tags = None, list_opt = None,
      project = None, projectId = None, area = None, areaId = None,
      noProject = False, noArea = False\<rparr>"

section \<open>Notions the properties are stated with\<close>

subsection \<open>Quoting in the host's string syntax\<close>

text \<open>
  In a double-quoted string of the host's script language a backslash escapes the
  character after it. Reading left to right, a double quote that is not consumed by a
  backslash before it is unescaped: it ends the string.
\<close>

fun unescaped_quote :: "string \<Rightarrow> bool" where
  "unescaped_quote [] = False"
| "unescaped_quote [c] = (c = dquote)"
| "unescaped_quote (c # d # r) =
     (if c = backslash then unescaped_quote r
      else if c = dquote then True
      else unescaped_quote (d # r))"

text \<open>
  The same reading of the text before escaping: a backslash takes the character after it
  with it; the input is dangerous when that character is a double quote.
\<close>

fun quote_after_odd_backslashes :: "string \<Rightarrow> bool" where
  "quote_after_odd_backslashes [] = False"
| "quote_after_odd_backslashes [c] = False"
| "quote_after_odd_backslashes (c # d # r) =
     (if c = backslash then d = dquote \<or> quote_after_odd_backslashes r
      else quote_after_odd_backslashes (d # r))"

subsection \<open>Container references and fallback plans\<close>

text \<open>
  The five kinds of container of the data model, the statement that fetches the to-dos
  of one, and a plan of attempts: a single fetch, or a \<open>try\<close> block whose error handler
  holds the rest of the plan.
\<close>

datatype container_ref = NamedList | ProjectById | ProjectByName | AreaById | AreaByName

fun fetch_statement :: "container_ref \<Rightarrow> string \<Rightarrow> string" where
  \<open>fetch_statement NamedList c = ''set todoList to to dos of list "'' @ c @ ''"''\<close>
| \<open>fetch_statement ProjectById c = ''set todoList to to dos of project id "'' @ c @ ''"''\<close>
| \<open>fetch_statement ProjectByName c = ''set todoList to to dos of project "'' @ c @ ''"''\<close>
| \<open>fetch_statement AreaById c = ''set todoList to to dos of area id "'' @ c @ ''"''\<close>
| \<open>fetch_statement AreaByName c = ''set todoList to to dos of area "'' @ c @ ''"''\<close>

datatype plan = Fetch container_ref | TryElse plan plan

text \<open>The plan that tries the references of a non-empty list in order.\<close>

fun plan_of :: "container_ref \<Rightarrow> container_ref list \<Rightarrow> plan" where
  "plan_of r [] = Fetch r"
| "plan_of r (r' # rs) = TryElse (Fetch r) (plan_of r' rs)"

text \<open>The script text of a plan at an indentation.\<close>

fun render_plan :: "string \<Rightarrow> plan \<Rightarrow> string \<Rightarrow> string" where
  "render_plan ind (Fetch r) c = ind @ fetch_statement r c @ ''\<newline>''"
| "render_plan ind (TryElse a b) c =
     ind @ ''try\<newline>'' @ render_plan (ind @ ''  '') a c @
     ind @ ''on error\<newline>'' @ render_plan (ind @ ''  '') b c @
     ind @ ''end try\<newline>''"

text \<open>
  What a plan does when \<open>ok r\<close> tells whether the fetch by \<open>r\<close> succeeds: the reference
  that supplies the list, or \<open>None\<close> when the last failure leaves the plan.
\<close>

fun run_plan :: "(container_ref \<Rightarrow> bool) \<Rightarrow> plan \<Rightarrow> container_ref option" where
  "run_plan ok (Fetch r) = (if ok r then Some r else None)"
| "run_plan ok (TryElse a b) = (case run_plan ok a of Some r \<Rightarrow> Some r | None \<Rightarrow> run_plan ok b)"

subsection \<open>Target hints of a new to-do\<close>

text \<open>
  The hint of each kind that a request supplies (an empty string is no hint), the fixed
  precedence of the kinds, and the clause that attaches a new to-do to a container.
\<close>

fun hint :: "options \<Rightarrow> container_ref \<Rightarrow> string option" where
  "hint opts NamedList = given (list_opt opts)"
| "hint opts ProjectById = given (projectId opts)"
| "hint opts ProjectByName = given (project opts)"
| "hint opts AreaById = given (areaId opts)"
| "hint opts AreaByName = given (area opts)"

definition precedence :: "container_ref list" where
  "precedence = [NamedList, ProjectById, ProjectByName, AreaById, AreaByName]"

fun attach_text :: "container_ref \<Rightarrow> string \<Rightarrow> string" where
  \<open>attach_text NamedList v = '' at beginning of list "'' @ v @ ''"''\<close>
| \<open>attach_text ProjectById v = '' at beginning of project id "'' @ escape v @ ''"''\<close>
| \<open>attach_text ProjectByName v = '' at beginning of project "'' @ escape v @ ''"''\<close>
| \<open>attach_text AreaById v = '' at beginning of area id "'' @ escape v @ ''"''\<close>
| \<open>attach_text AreaByName v = '' at beginning of area "'' @ escape v @ ''"''\<close>

text \<open>The first kind in the precedence that has a hint, with the hint.\<close>

definition first_hint :: "options \<Rightarrow> (container_ref \<times> string) option" where
  "first_hint opts = first_some (map (\<lambda>r. map_option (Pair r) (hint opts r)) precedence)"

text \<open>The request with every hint but the one of kind \<open>r\<close> taken away.\<close>

definition only_hint :: "container_ref \<Rightarrow> options \<Rightarrow> options" where
  "only_hint r opts =
     opts\<lparr>list_opt := (if r = NamedList then list_opt opts else None),
          projectId := (if r = ProjectById then projectId opts else None),
          project := (if r = ProjectByName then project opts else None),
          areaId := (if r = AreaById then areaId opts else None),
          area := (if r = AreaByName then area opts else None)\<rparr>"

text \<open>The statements that set the due date, when a valid one is given.\<close>

definition due_statements :: "'d host \<Rightarrow> options \<Rightarrow> string" where
  "due_statements h opts =
     (case given (due opts) of
        None \<Rightarrow> []
      | Some d \<Rightarrow>
          (case Date_new h d of
             None \<Rightarrow> []
           | Some date \<Rightarrow>
               ''  '' @ generateAppleScriptDate h date ''tempDate'' @ ''\<newline>'' @
               ''  set due date of newToDo to tempDate\<newline>''))"

subsection \<open>Statements of a script\<close>

text \<open>
  The lines of a script that was built (none when the builder threw), and the statements
  of a creation script that stand between the creation statement (the second line) and
  the assignment of the due date.
\<close>

fun split_lines_acc :: "string \<Rightarrow> string \<Rightarrow> string list" where
  "split_lines_acc acc [] = [rev acc]"
| "split_lines_acc acc (c # cs) =
     (if c = CHR 0x0A then rev acc # split_lines_acc [] cs else split_lines_acc (c # acc) cs)"

definition script_lines :: "error + string \<Rightarrow> string list" where
  "script_lines r = (case r of Inl e \<Rightarrow> [] | Inr s \<Rightarrow> split_lines_acc [] s)"

definition encode_statements :: "string list \<Rightarrow> string list" where
  "encode_statements ls =
     takeWhile (\<lambda>l. l \<noteq> ''  set due date of newToDo to tempDate'') (drop 2 ls)"

subsection \<open>What a match says about the text\<close>

text \<open>
  The text that a pattern matches with given captures, and the fit of the captures to the
  counted classes of the pattern: each capture consists of characters of its class and has
  a length within the bounds.
\<close>

fun matched_text :: "ritem list \<Rightarrow> string list \<Rightarrow> string" where
  "matched_text [] caps = []"
| "matched_text (Lit l # items) caps = l @ matched_text items caps"
| "matched_text (End # items) caps = matched_text items caps"
| "matched_text (Rep p lo hi # items) caps =
     (case caps of [] \<Rightarrow> [] | c # cs \<Rightarrow> c @ matched_text items cs)"

fun caps_fit :: "ritem list \<Rightarrow> string list \<Rightarrow> bool" where
  "caps_fit [] caps = (caps = [])"
| "caps_fit (Lit l # items) caps = caps_fit items caps"
| "caps_fit (End # items) caps = caps_fit items caps"
| "caps_fit (Rep p lo hi # items) caps =
     (case caps of
        [] \<Rightarrow> False
      | c # cs \<Rightarrow>
          list_all p c \<and> lo \<le> length c
          \<and> (case hi of None \<Rightarrow> True | Some h \<Rightarrow> length c \<le> h)
          \<and> caps_fit items cs)"

subsection \<open>Decoding one value\<close>

text \<open>What the loop over the date fields does to the value of one of them.\<close>

definition convert_value :: "'d host \<Rightarrow> jsval \<Rightarrow> jsval" where
  "convert_value h v =
     (if js_truthy (Some v) \<and> v \<noteq> JNull then
        (case parseAppleScriptDate h v of
           Some parsedDate \<Rightarrow> JStr (toISOString h parsedDate)
         | None \<Rightarrow> v)
      else v)"

text \<open>A property of a decoded record (\<open>undefined\<close> when the decoder threw).\<close>

definition decoded_field :: "js_exn + jsobj \<Rightarrow> string \<Rightarrow> jsval option" where
  "decoded_field r k = (case r of Inl exn \<Rightarrow> None | Inr out \<Rightarrow> out k)"

subsection \<open>Messages of the bridge\<close>

definition not_found_message :: string where
  "not_found_message = ''Item not found. Please check the name and try again.''"

definition app_error_message :: string where
  "app_error_message = ''Things 3 error. Make sure the app is running and accessible.''"

definition not_running_message :: string where
  "not_running_message = ''Things 3 is not running. Please open Things 3 and try again.''"

subsection \<open>The strict date pattern\<close>




subsection \<open>The validation of a creation request\<close>

text \<open>The error, if any, that the checks on title, due date and list name raise, in their order.\<close>

definition list_check :: "options \<Rightarrow> error option" where
  "list_check opts =
     (case given (list_opt opts) of
        None \<Rightarrow> None
      | Some l \<Rightarrow> if l \<notin> set validLists then Some invalid_list_error else None)"

definition validation :: "'d host \<Rightarrow> string \<Rightarrow> options \<Rightarrow> error option" where
  "validation h ttl opts =
     (if blank ttl then Some (Error ''To-do title cannot be empty'')
      else case given (due opts) of
             None \<Rightarrow> list_check opts
           | Some d \<Rightarrow>
               if \<not> regex_test dateRegex d then Some (Error ''Due date must be in YYYY-MM-DD format'')
               else if Date_new h d = None then Some (Error ''Invalid due date provided'')
               else list_check opts)"

subsection \<open>Example requests\<close>

definition hinted_options :: options where
  "hinted_options =
     no_options\<lparr>project := Some ''Home'', areaId := Some ''A1'', area := Some ''Work''\<rparr>"

definition buy_milk_options :: options where
  "buy_milk_options =
     no_options\<lparr>due := Some ''2024-01-15'', tags := Some ''Home,Urgent'', list_opt := Some ''Today''\<rparr>"

definition raw_todo :: jsobj where
  "raw_todo =
     map_of [(''id'', JStr ''T1''), (''name'', JStr ''Call''), (''notes'', JStr ''null''),
             (''dueDate'', JStr ''missing value''), (''tagNames'', JStr ''Work, Urgent''),
             (''creationDate'', JStr ''Wednesday 6 August 2025 at 20:45:46''),
             (''modificationDate'', JStr ''yesterday'')]"

text \<open>A bridge that fails with a given message.\<close>

definition failing_bridge :: "string \<Rightarrow> string \<Rightarrow> unit outcome" where
  "failing_bridge msg script = Failed msg"




definition tagged_options :: options where
  "tagged_options = no_options\<lparr>tags := Some ''Home''\<rparr>"

text \<open>A raw record that holds only the joined names of a list of tags.\<close>

definition tagged_record :: "string list \<Rightarrow> jsobj" where
  "tagged_record ts = [''tagNames'' \<mapsto> JStr (join '', '' ts)]"

section \<open>Properties\<close>

subsection \<open>The escaper\<close>

lemma escape_Nil: "escape [] = []"
  by (simp add: escape_def)

lemma escape_Cons:
  "escape (c # cs) = (if c = dquote then [backslash, dquote] else [c]) @ escape cs"
  by (simp add: escape_def)

lemma escape_append: "escape (a @ b) = escape a @ escape b"
  by (simp add: escape_def)

lemma backslash_neq_dquote: "backslash \<noteq> dquote" "dquote \<noteq> backslash"
  by (simp_all add: backslash_def dquote_def)

lemma unescaped_quote_plain_Cons:
  "c \<noteq> backslash \<Longrightarrow> c \<noteq> dquote \<Longrightarrow> unescaped_quote (c # s) = unescaped_quote s"
  by (cases s) simp_all

lemma unescaped_quote_escape:
  "unescaped_quote (escape s) = quote_after_odd_backslashes s"
proof (induction s rule: quote_after_odd_backslashes.induct)
  case 1
  show ?case by (simp add: escape_Nil)
next
  case (2 c)
  show ?case by (simp add: escape_Cons escape_Nil backslash_neq_dquote)
next
  case (3 c d r)
  show ?case
  proof (cases "c = backslash")
    case True
    have "unescaped_quote (escape (c # d # r)) =
          unescaped_quote (backslash # (if d = dquote then [backslash, dquote] else [d]) @ escape r)"
      using True by (simp add: escape_Cons backslash_neq_dquote)
    also have "\<dots> = (d = dquote \<or> quote_after_odd_backslashes r)"
      using 3(1)[OF True] by (cases "escape r") (auto simp: backslash_neq_dquote)
    finally show ?thesis using True by simp
  next
    case False
    have ih: "unescaped_quote (escape (d # r)) = quote_after_odd_backslashes (d # r)"
      using 3(2)[OF False] .
    show ?thesis
    proof (cases "c = dquote")
      case True
      then show ?thesis using False ih by (simp add: escape_Cons backslash_neq_dquote)
    next
      case plain: False
      have "unescaped_quote (escape (c # d # r)) = unescaped_quote (c # escape (d # r))"
        using plain by (simp add: escape_Cons)
      also have "\<dots> = unescaped_quote (escape (d # r))"
        using False plain by (rule unescaped_quote_plain_Cons)
      finally show ?thesis using False ih by simp
    qed
  qed
qed

lemma no_backslash_no_odd:
  "backslash \<notin> set s \<Longrightarrow> \<not> quote_after_odd_backslashes s"
  by (induction s rule: quote_after_odd_backslashes.induct) auto

text \<open>
  C7 (as amended). \<open>escape\<close> replaces every double quote by backslash, double quote, and
  changes no other character: it is the character-wise substitution. Its result holds an
  unescaped double quote exactly when the input has a double quote right after an
  unpaired backslash; so for an input without a backslash the result has none.
\<close>

theorem escape_contract:
  "escape [] = []
   \<and> escape (a @ b) = escape a @ escape b
   \<and> escape [c] = (if c = dquote then [backslash, dquote] else [c])
   \<and> unescaped_quote (escape s) = quote_after_odd_backslashes s
   \<and> (backslash \<notin> set s \<longrightarrow> \<not> unescaped_quote (escape s))"
  using unescaped_quote_escape [of s] no_backslash_no_odd [of s]
  by (simp add: escape_Nil escape_append escape_Cons)

theorem escape_contract_witness:
  \<open>backslash \<notin> set ''say "hi"''
   \<and> dquote \<in> set ''say "hi"''
   \<and> escape ''say "hi"'' = ''say '' @ [backslash, dquote] @ ''hi'' @ [backslash, dquote]
   \<and> \<not> unescaped_quote (escape ''say "hi"'')\<close>
  using escape_contract [of "[]" "[]" "CHR ''x''" \<open>''say "hi"''\<close>]
  by (simp add: escape_def backslash_def dquote_def)

text \<open>
  The claim as stated fails: the input backslash, double quote contains a double quote,
  and in its escaped form (backslash, backslash, double quote) the quote is unescaped.
\<close>

theorem escape_backslash_counterexample:
  "dquote \<in> set [backslash, dquote] \<and> unescaped_quote (escape [backslash, dquote])"
  by (simp add: escape_def backslash_neq_dquote)

subsection \<open>Container resolution\<close>

lemma run_plan_of: "run_plan ok (plan_of r rs) = List.find ok (r # rs)"
  by (induction r rs rule: plan_of.induct) auto

text \<open>
  C1. For a container name among the six named lists, both \<open>listTodos\<close> and
  \<open>listTodosJson\<close> fetch from that list directly, outside any \<open>try\<close>. For every other
  name the script of \<open>listTodos\<close> is the plan that tries project by id, project by name,
  area by id, area by name, each in the error handler of the one before; the script of
  \<open>listTodosJson\<close> is the plan that tries project by name, then area by name. Such a plan
  stops at the first fetch that succeeds, in that order.
\<close>

theorem container_resolution:
  "(container \<in> set namedLists \<longrightarrow>
      listTodos container ids =
        tell_line @ render_plan ''  '' (Fetch NamedList) container
          @ listTodos_collect ids @ ''end tell''
      \<and> listTodosJson container =
        tell_line @ render_plan ''  '' (Fetch NamedList) container @ listTodosJson_records)
   \<and> (container \<notin> set namedLists \<longrightarrow>
      listTodos container ids =
        tell_line
          @ render_plan ''  '' (plan_of ProjectById [ProjectByName, AreaById, AreaByName]) container
          @ listTodos_collect ids @ ''end tell''
      \<and> listTodosJson container =
        tell_line @ render_plan ''  '' (plan_of ProjectByName [AreaByName]) container
          @ listTodosJson_records)
   \<and> run_plan ok (plan_of ProjectById [ProjectByName, AreaById, AreaByName]) =
        List.find ok [ProjectById, ProjectByName, AreaById, AreaByName]
   \<and> run_plan ok (plan_of ProjectByName [AreaByName]) = List.find ok [ProjectByName, AreaByName]"
  by (simp add: listTodos_def listTodos_resolve_def listTodosJson_def listTodosJson_resolve_def)

theorem container_resolution_witness:
  \<open>''Today'' \<in> set namedLists
   \<and> listTodos ''Today'' False =
       ''tell application "Things3"\<newline>'' @
       ''  set todoList to to dos of list "Today"\<newline>'' @
       ''  set todoNames to {}\<newline>'' @
       ''  repeat with aTodo in todoList\<newline>'' @
       ''    set end of todoNames to name of aTodo\<newline>'' @
       ''  end repeat\<newline>'' @
       ''  return todoNames\<newline>'' @
       ''end tell''
   \<and> ''Errands'' \<notin> set namedLists
   \<and> listTodos ''Errands'' False =
       ''tell application "Things3"\<newline>'' @
       ''  try\<newline>'' @
       ''    set todoList to to dos of project id "Errands"\<newline>'' @
       ''  on error\<newline>'' @
       ''    try\<newline>'' @
       ''      set todoList to to dos of project "Errands"\<newline>'' @
       ''    on error\<newline>'' @
       ''      try\<newline>'' @
       ''        set todoList to to dos of area id "Errands"\<newline>'' @
       ''      on error\<newline>'' @
       ''        set todoList to to dos of area "Errands"\<newline>'' @
       ''      end try\<newline>'' @
       ''    end try\<newline>'' @
       ''  end try\<newline>'' @
       ''  set todoNames to {}\<newline>'' @
       ''  repeat with aTodo in todoList\<newline>'' @
       ''    set end of todoNames to name of aTodo\<newline>'' @
       ''  end repeat\<newline>'' @
       ''  return todoNames\<newline>'' @
       ''end tell''
   \<and> listTodosJson ''Errands'' =
       ''tell application "Things3"\<newline>'' @
       ''  try\<newline>'' @
       ''    set todoList to to dos of project "Errands"\<newline>'' @
       ''  on error\<newline>'' @
       ''    set todoList to to dos of area "Errands"\<newline>'' @
       ''  end try\<newline>'' @
       listTodosJson_records
   \<and> run_plan (\<lambda>r. r = AreaById \<or> r = AreaByName)
         (plan_of ProjectById [ProjectByName, AreaById, AreaByName]) = Some AreaById\<close>
  using container_resolution [of "''Today''" False "\<lambda>r. r = AreaById \<or> r = AreaByName"]
    container_resolution [of "''Errands''" False "\<lambda>r. r = AreaById \<or> r = AreaByName"]
  by (simp add: namedLists_def tell_line_def listTodos_collect_def)

subsection \<open>Attachment of a new to-do\<close>

lemma given_simps: "given None = None" "given (Some s) = (if s = [] then None else Some s)"
  by (simp_all add: given_def)

lemma first_some_Cons:
  "first_some (x # xs) = (case x of None \<Rightarrow> first_some xs | Some y \<Rightarrow> Some y)"
  by (cases x) simp_all

lemma first_hint_unfold:
  "first_hint opts =
     (case given (list_opt opts) of Some v \<Rightarrow> Some (NamedList, v) | None \<Rightarrow>
      case given (projectId opts) of Some v \<Rightarrow> Some (ProjectById, v) | None \<Rightarrow>
      case given (project opts) of Some v \<Rightarrow> Some (ProjectByName, v) | None \<Rightarrow>
      case given (areaId opts) of Some v \<Rightarrow> Some (AreaById, v) | None \<Rightarrow>
      case given (area opts) of Some v \<Rightarrow> Some (AreaByName, v) | None \<Rightarrow> None)"
  by (simp add: first_hint_def precedence_def first_some_Cons split: option.splits)

lemma first_hintI:
  assumes "hint opts r = Some v"
    and "\<forall>r' \<in> set (takeWhile (\<lambda>x. x \<noteq> r) precedence). hint opts r' = None"
  shows "first_hint opts = Some (r, v)"
  using assms by (cases r) (simp_all add: first_hint_unfold precedence_def)

lemma attach_clause_first_hint:
  "attach_clause opts = (case first_hint opts of None \<Rightarrow> [] | Some (r, v) \<Rightarrow> attach_text r v)"
  by (simp add: attach_clause_def first_hint_unfold split: option.splits)

lemma first_hint_only:
  "first_hint opts = Some (r, v) \<Longrightarrow>
     attach_clause (only_hint r opts) = attach_clause opts
     \<and> given (list_opt (only_hint r opts)) = given (list_opt opts)"
  by (cases r)
    (auto simp: attach_clause_def first_hint_unfold only_hint_def given_simps
          split: option.splits if_splits)

lemma only_hint_props:
  "todo_properties ttl (only_hint r opts) = todo_properties ttl opts"
  "due (only_hint r opts) = due opts"
  by (simp_all add: todo_properties_def only_hint_def)

lemma addTodo_only_hint:
  assumes "first_hint opts = Some (r, v)"
  shows "addTodo h ttl (only_hint r opts) = addTodo h ttl opts"
  using first_hint_only [OF assms]
  by (simp add: addTodo_def only_hint_props cong: sum.case_cong option.case_cong)

lemma addTodo_script_shape:
  "addTodo h ttl opts = Inr script \<Longrightarrow>
     script = tell_line @ ''  set newToDo to make new to do with properties {'' @
              join '', '' (todo_properties ttl opts) @ ''}'' @ attach_clause opts @ ''\<newline>'' @
              due_statements h opts @ ''end tell''"
  by (auto simp: addTodo_def due_statements_def validateDateString_def
           split: if_splits option.splits sum.splits)

text \<open>
  C2. Let \<open>r\<close> be the first kind, in the order list name, project id, project name, area
  id, area name, for which the request gives a (non-empty) hint \<open>v\<close>. Then the clause that
  \<open>addTodo\<close> appends is the one for \<open>r\<close> and \<open>v\<close>; a script that is built holds it once,
  between the creation statement and the end of its line; and the outcome of \<open>addTodo\<close>,
  script or error, is the outcome for the request with all other hints removed: the hints
  of lower precedence are ignored and raise no error.
\<close>

theorem attachment_precedence:
  assumes "hint opts r = Some v"
    and "\<forall>r' \<in> set (takeWhile (\<lambda>x. x \<noteq> r) precedence). hint opts r' = None"
  shows "attach_clause opts = attach_text r v
         \<and> addTodo h ttl opts = addTodo h ttl (only_hint r opts)
         \<and> (\<forall>script. addTodo h ttl opts = Inr script \<longrightarrow>
               script = tell_line @ ''  set newToDo to make new to do with properties {'' @
                        join '', '' (todo_properties ttl opts) @ ''}'' @ attach_text r v @
                        ''\<newline>'' @ due_statements h opts @ ''end tell'')"
proof -
  have fh: "first_hint opts = Some (r, v)"
    using assms by (rule first_hintI)
  have clause: "attach_clause opts = attach_text r v"
    using fh by (simp add: attach_clause_first_hint)
  have same: "addTodo h ttl opts = addTodo h ttl (only_hint r opts)"
    by (rule addTodo_only_hint [OF fh, symmetric])
  have shape: "\<forall>script. addTodo h ttl opts = Inr script \<longrightarrow>
               script = tell_line @ ''  set newToDo to make new to do with properties {'' @
                        join '', '' (todo_properties ttl opts) @ ''}'' @ attach_text r v @
                        ''\<newline>'' @ due_statements h opts @ ''end tell''"
    using addTodo_script_shape [of h ttl opts] clause by simp
  from clause same shape show ?thesis by blast
qed

theorem attachment_precedence_witness:
  \<open>hint hinted_options ProjectByName = Some ''Home''
   \<and> takeWhile (\<lambda>x. x \<noteq> ProjectByName) precedence = [NamedList, ProjectById]
   \<and> hint hinted_options NamedList = None
   \<and> hint hinted_options ProjectById = None
   \<and> attach_clause hinted_options = '' at beginning of project "Home"''
   \<and> addTodo ref_host ''Call'' hinted_options =
       Inr (''tell application "Things3"\<newline>'' @
            ''  set newToDo to make new to do with properties {name:"Call"} at beginning of project "Home"\<newline>'' @
            ''end tell'')
   \<and> addTodo ref_host ''Call'' (only_hint ProjectByName hinted_options) =
       addTodo ref_host ''Call'' hinted_options\<close>
proof -
  have h1: "hint hinted_options ProjectByName = Some ''Home''"
    by (simp add: hinted_options_def no_options_def given_def)
  have tw: "takeWhile (\<lambda>x. x \<noteq> ProjectByName) precedence = [NamedList, ProjectById]"
    by (simp add: precedence_def)
  have h2: "hint hinted_options NamedList = None" "hint hinted_options ProjectById = None"
    by (simp_all add: hinted_options_def no_options_def given_def)
  have h3: "\<forall>r' \<in> set (takeWhile (\<lambda>x. x \<noteq> ProjectByName) precedence).
              hint hinted_options r' = None"
    using h2 by (simp add: tw)
  have script: \<open>addTodo ref_host ''Call'' hinted_options =
       Inr (''tell application "Things3"\<newline>'' @
            ''  set newToDo to make new to do with properties {name:"Call"} at beginning of project "Home"\<newline>'' @
            ''end tell'')\<close>
    by (simp add: addTodo_def blank_def trim_def is_space_def hinted_options_def no_options_def
          given_def todo_properties_def attach_clause_def escape_def dquote_def tell_line_def)
  note inst = attachment_precedence [OF h1 h3, of ref_host "''Call''"]
  have clause: \<open>attach_clause hinted_options = '' at beginning of project "Home"''\<close>
    using inst by (simp add: escape_def dquote_def)
  have same: "addTodo ref_host ''Call'' (only_hint ProjectByName hinted_options) =
              addTodo ref_host ''Call'' hinted_options"
    using inst by simp
  from h1 tw h2 clause script same show ?thesis
    by (intro conjI)
qed

subsection \<open>The script of the example request\<close>

text \<open>
  C3 (as amended). On any host that accepts the date, the script for title \<open>Buy milk\<close>,
  due \<open>2024-01-15\<close>, tags \<open>Home,Urgent\<close>, list \<open>Today\<close> is these nine lines: the
  creation statement with the properties name, then tags, and the clause
  \<open>at beginning of list "Today"\<close>; after it five statements on the temporary \<open>tempDate\<close>
  (the current date, then its month, day and year from the date, then time 0); then the
  assignment of \<open>tempDate\<close> to the due date. No date statement is in the property list.
\<close>

theorem buy_milk_script:
  assumes "Date_new h ''2024-01-15'' = Some d"
  shows \<open>addTodo h ''Buy milk'' buy_milk_options =
    Inr (join ''\<newline>''
      [''tell application "Things3"'',
       ''  set newToDo to make new to do with properties {name:"Buy milk", tag names:"Home,Urgent"} at beginning of list "Today"'',
       ''  set tempDate to current date'',
       ''  set month of tempDate to '' @ show_int (getMonth h d + 1),
       ''  set day of tempDate to '' @ show_int (getDate h d),
       ''  set year of tempDate to '' @ show_int (getFullYear h d),
       ''  set time of tempDate to 0'',
       ''  set due date of newToDo to tempDate'',
       ''end tell''])\<close>
proof -
  have re: "regex_test dateRegex ''2024-01-15''"
    by code_simp
  show ?thesis
    using assms re
    by (simp add: addTodo_def blank_def trim_def is_space_def buy_milk_options_def no_options_def
          given_def todo_properties_def attach_clause_def escape_def dquote_def tell_line_def
          validateDateString_def validLists_def generateAppleScriptDate_def Let_def)
qed

theorem buy_milk_script_witness:
  \<open>Date_new ref_host ''2024-01-15'' =
     Some \<lparr>c_year = 2024, c_month = 0, c_day = 15, c_hour = 0, c_minute = 0, c_second = 0\<rparr>
   \<and> addTodo ref_host ''Buy milk'' buy_milk_options =
    Inr (join ''\<newline>''
      [''tell application "Things3"'',
       ''  set newToDo to make new to do with properties {name:"Buy milk", tag names:"Home,Urgent"} at beginning of list "Today"'',
       ''  set tempDate to current date'',
       ''  set month of tempDate to 1'',
       ''  set day of tempDate to 15'',
       ''  set year of tempDate to 2024'',
       ''  set time of tempDate to 0'',
       ''  set due date of newToDo to tempDate'',
       ''end tell''])\<close>
proof -
  have d: "Date_new ref_host ''2024-01-15'' =
     Some \<lparr>c_year = 2024, c_month = 0, c_day = 15, c_hour = 0, c_minute = 0, c_second = 0\<rparr>"
    by code_simp
  have n: "show_int 1 = ''1''" "show_int 15 = ''15''" "show_int 2024 = ''2024''"
    by code_simp+
  show ?thesis
    using buy_milk_script [OF d] d n by (simp add: ref_host_def)
qed

text \<open>
  The claim as stated fails: between the creation statement and the assignment of the
  due date the script has five statements, not three.
\<close>

theorem buy_milk_encode_statements_counterexample:
  "encode_statements (script_lines (addTodo ref_host ''Buy milk'' buy_milk_options)) =
     [''  set tempDate to current date'',
      ''  set month of tempDate to 1'',
      ''  set day of tempDate to 15'',
      ''  set year of tempDate to 2024'',
      ''  set time of tempDate to 0'']
   \<and> length (encode_statements (script_lines (addTodo ref_host ''Buy milk'' buy_milk_options))) \<noteq> 3"
  by code_simp

subsection \<open>Decoding a date\<close>

lemma first_some_SomeD: "first_some xs = Some y \<Longrightarrow> Some y \<in> set xs"
  by (induction xs rule: first_some.induct) auto

lemma starts_with_append: "starts_with s l \<Longrightarrow> s = l @ drop (length l) s"
  by (induction s l rule: starts_with.induct) auto

lemma take_takeWhile_all:
  "k \<le> length (takeWhile p s) \<Longrightarrow> list_all p (take k s)"
  by (induction s arbitrary: k) (auto simp: take_Cons' split: if_splits)

lemma rmatch_sound:
  "rmatch items s = Some (caps, rest) \<Longrightarrow> caps_fit items caps \<and> s = matched_text items caps @ rest"
proof (induction items arbitrary: s caps rest)
  case Nil
  then show ?case by simp
next
  case (Cons item items)
  show ?case
  proof (cases item)
    case (Lit l)
    with Cons.prems have sw: "starts_with s l"
      and m: "rmatch items (drop (length l) s) = Some (caps, rest)"
      by (auto split: if_splits)
    from Cons.IH[OF m] starts_with_append[OF sw] Lit show ?thesis by auto
  next
    case End
    with Cons.prems have "s = []" and m: "rmatch items s = Some (caps, rest)"
      by (auto split: if_splits)
    from Cons.IH[OF m] End show ?thesis by auto
  next
    case (Rep p lo hi)
    define most where
      "most = (case hi of None \<Rightarrow> length (takeWhile p s) | Some h \<Rightarrow> min h (length (takeWhile p s)))"
    define F where
      "F = (\<lambda>k. map_option (\<lambda>(caps, rest). (take k s # caps, rest)) (rmatch items (drop k s)))"
    define ks where "ks = rev [lo ..< Suc most]"
    from Cons.prems Rep have "first_some (map F ks) = Some (caps, rest)"
      by (simp add: Let_def most_def F_def ks_def)
    from first_some_SomeD[OF this] have "Some (caps, rest) \<in> F ` set ks"
      by simp
    then obtain k where kin: "k \<in> set ks" and Fk: "F k = Some (caps, rest)"
      by (metis imageE)
    from kin have k: "lo \<le> k" "k \<le> most"
      by (auto simp: ks_def)
    from Fk have
      mk: "map_option (\<lambda>(caps, rest). (take k s # caps, rest)) (rmatch items (drop k s)) = Some (caps, rest)"
      by (simp add: F_def)
    from mk obtain caps' where
      m: "rmatch items (drop k s) = Some (caps', rest)" and caps: "caps = take k s # caps'"
      by (auto split: prod.splits)
    have kav: "k \<le> length (takeWhile p s)"
      using k(2) by (auto simp: most_def split: option.splits)
    have klen: "k \<le> length s"
      using kav length_takeWhile_le[of p s] by linarith
    have khi: "(case hi of None \<Rightarrow> True | Some h \<Rightarrow> k \<le> h)"
      using k(2) by (auto simp: most_def split: option.splits)
    from Cons.IH[OF m] have ih: "caps_fit items caps'" "drop k s = matched_text items caps' @ rest"
      by auto
    have "s = take k s @ drop k s" by simp
    with ih(2) have s: "s = take k s @ matched_text items caps' @ rest" by metis
    show ?thesis
      using Rep caps ih(1) s take_takeWhile_all[OF kav] k(1) klen khi
      by (auto simp: min_absorb2 split: option.splits)
  qed
qed

lemma rsearch_sound:
  "rsearch items s = Some (caps, rest) \<Longrightarrow>
     caps_fit items caps \<and> (\<exists>pre. s = pre @ matched_text items caps @ rest)"
proof (induction s)
  case Nil
  then show ?case using rmatch_sound[of items "[]" caps rest] by auto
next
  case (Cons c cs)
  show ?case
  proof (cases "rmatch items (c # cs)")
    case None
    with Cons.prems have "rsearch items cs = Some (caps, rest)" by simp
    from Cons.IH[OF this] obtain pre where "caps_fit items caps" "cs = pre @ matched_text items caps @ rest"
      by auto
    then have "c # cs = (c # pre) @ matched_text items caps @ rest" by simp
    with \<open>caps_fit items caps\<close> show ?thesis by blast
  next
    case (Some m)
    with Cons.prems have "rmatch items (c # cs) = Some (caps, rest)" by simp
    from rmatch_sound[OF this] have "caps_fit items caps" "c # cs = [] @ matched_text items caps @ rest"
      by auto
    then show ?thesis by blast
  qed
qed

lemma caps_fit_dateText:
  "caps_fit dateTextRegex caps \<Longrightarrow>
     \<exists>day month year hour minute second.
        caps = [day, month, year, hour, minute, second]
        \<and> list_all is_digit day \<and> length day \<in> {1, 2}
        \<and> list_all is_alpha month \<and> month \<noteq> []
        \<and> list_all is_digit year \<and> length year = 4
        \<and> list_all is_digit hour \<and> length hour \<in> {1, 2}
        \<and> list_all is_digit minute \<and> length minute = 2
        \<and> list_all is_digit second \<and> length second = 2"
  by (auto simp: dateTextRegex_def split: list.splits)

lemma indexOf_None_iff: "indexOf xs x = None \<longleftrightarrow> x \<notin> set xs"
  by (induction xs) auto

lemma indexOf_Some_iff:
  "distinct xs \<Longrightarrow> indexOf xs x = Some i \<longleftrightarrow> i < length xs \<and> xs ! i = x"
proof (induction xs arbitrary: i)
  case Nil
  then show ?case by simp
next
  case (Cons y ys)
  from Cons.prems have notin: "y \<notin> set ys" and dist: "distinct ys"
    by simp_all
  note ih = Cons.IH [OF dist]
  show ?case
  proof (cases i)
    case 0
    then show ?thesis by simp
  next
    case (Suc j)
    show ?thesis
    proof (cases "y = x")
      case True
      have "\<not> (j < length ys \<and> ys ! j = x)"
        using notin True nth_mem [of j ys] by blast
      then show ?thesis using True Suc by simp
    next
      case False
      then show ?thesis using Suc ih [of j] by simp
    qed
  qed
qed

lemma monthNames_distinct: "distinct monthNames" "length monthNames = 12"
  by (simp_all add: monthNames_def)

lemma parse_sentinels:
  "parseAppleScriptDate h (JStr []) = None"
  "parseAppleScriptDate h (JStr ''missing value'') = None"
  by (simp_all add: parseAppleScriptDate_def)

lemma parse_caught: "parse_body h v = Inl exn \<Longrightarrow> parseAppleScriptDate h v = None"
  by (simp add: parseAppleScriptDate_def)

lemma parse_generic:
  "s \<noteq> [] \<Longrightarrow> s \<noteq> ''missing value'' \<Longrightarrow>
   Date_new h (replace_first '' at '' '' '' (regex_replace weekdayRegex [] s)) = Some d \<Longrightarrow>
   parseAppleScriptDate h (JStr s) = Some d"
  by (simp add: parseAppleScriptDate_def parse_body_def)

lemma parse_no_match:
  "s \<noteq> [] \<Longrightarrow> s \<noteq> ''missing value'' \<Longrightarrow>
   Date_new h (replace_first '' at '' '' '' (regex_replace weekdayRegex [] s)) = None \<Longrightarrow>
   rsearch dateTextRegex s = None \<Longrightarrow>
   parseAppleScriptDate h (JStr s) = None"
  by (simp add: parseAppleScriptDate_def parse_body_def)

lemma parse_fallback:
  assumes "s \<noteq> []" "s \<noteq> ''missing value''"
    and "Date_new h (replace_first '' at '' '' '' (regex_replace weekdayRegex [] s)) = None"
    and "rsearch dateTextRegex s = Some (caps, rest)"
  shows "\<exists>day month year hour minute second pre.
           caps = [day, month, year, hour, minute, second]
           \<and> s = pre @ day @ '' '' @ month @ '' '' @ year @ '' at '' @ hour @ '':'' @ minute
                  @ '':'' @ second @ rest
           \<and> list_all is_digit day \<and> length day \<in> {1, 2}
           \<and> list_all is_alpha month \<and> month \<noteq> []
           \<and> list_all is_digit year \<and> length year = 4
           \<and> list_all is_digit hour \<and> length hour \<in> {1, 2}
           \<and> list_all is_digit minute \<and> length minute = 2
           \<and> list_all is_digit second \<and> length second = 2
           \<and> parseAppleScriptDate h (JStr s) =
               (case indexOf monthNames month of
                  None \<Rightarrow> None
                | Some i \<Rightarrow>
                    Some (Date_of_fields h (parseInt year) (int i) (parseInt day)
                            (parseInt hour) (parseInt minute) (parseInt second)))"
proof -
  from rsearch_sound[OF assms(4)] obtain pre where
    fit: "caps_fit dateTextRegex caps" and s: "s = pre @ matched_text dateTextRegex caps @ rest"
    by auto
  from caps_fit_dateText[OF fit] obtain day month year hour minute second where
    caps: "caps = [day, month, year, hour, minute, second]" and
    shapes: "list_all is_digit day" "length day \<in> {1, 2}"
      "list_all is_alpha month" "month \<noteq> []"
      "list_all is_digit year" "length year = 4"
      "list_all is_digit hour" "length hour \<in> {1, 2}"
      "list_all is_digit minute" "length minute = 2"
      "list_all is_digit second" "length second = 2"
    by blast
  have whole: "s = pre @ day @ '' '' @ month @ '' '' @ year @ '' at '' @ hour @ '':'' @ minute
                  @ '':'' @ second @ rest"
    using s caps by (simp add: dateTextRegex_def)
  have res: "parseAppleScriptDate h (JStr s) = date_of_match h caps"
    using assms by (simp add: parseAppleScriptDate_def parse_body_def)
  have dm: "date_of_match h caps =
          (case indexOf monthNames month of
             None \<Rightarrow> None
           | Some i \<Rightarrow>
               Some (Date_of_fields h (parseInt year) (int i) (parseInt day)
                       (parseInt hour) (parseInt minute) (parseInt second)))"
    using caps by simp
  note result = res [unfolded dm]
  show ?thesis
    apply (rule exI [where x = day], rule exI [where x = month], rule exI [where x = year])
    apply (rule exI [where x = hour], rule exI [where x = minute], rule exI [where x = second])
    apply (rule exI [where x = pre])
    apply (insert caps whole shapes result)
    apply (intro conjI; assumption)
    done
qed

text \<open>
  C4. \<open>parseAppleScriptDate\<close> returns \<open>null\<close> for the empty string and for
  \<open>missing value\<close>. When the host's parse of the text without its weekday and \<open>at\<close>
  succeeds, its date is the result. When it fails, the result is that of the manual parse: the regular expression finds a day of one
  or two digits, a month word, a year of four digits and the time in the text, the month
  word is looked up in the table of the twelve English names, compared exactly, and the
  date is built from the numbers; with no match, or a month word outside the table, the
  result is \<open>null\<close>. An exception of the body is caught and gives \<open>null\<close>: the function
  returns for every input.
\<close>

theorem parseAppleScriptDate_total:
  "parseAppleScriptDate h (JStr []) = None
   \<and> parseAppleScriptDate h (JStr ''missing value'') = None
   \<and> (parse_body h v = Inl exn \<longrightarrow> parseAppleScriptDate h v = None)
   \<and> (s \<noteq> [] \<and> s \<noteq> ''missing value''
        \<and> Date_new h (replace_first '' at '' '' '' (regex_replace weekdayRegex [] s)) = Some d \<longrightarrow>
        parseAppleScriptDate h (JStr s) = Some d)
   \<and> (s \<noteq> [] \<and> s \<noteq> ''missing value''
        \<and> Date_new h (replace_first '' at '' '' '' (regex_replace weekdayRegex [] s)) = None \<longrightarrow>
        (case rsearch dateTextRegex s of
           None \<Rightarrow> parseAppleScriptDate h (JStr s) = None
         | Some (caps, rest) \<Rightarrow>
             (\<exists>day month year hour minute second pre.
                caps = [day, month, year, hour, minute, second]
                \<and> s = pre @ day @ '' '' @ month @ '' '' @ year @ '' at '' @ hour @ '':'' @ minute
                       @ '':'' @ second @ rest
                \<and> list_all is_digit day \<and> length day \<in> {1, 2}
                \<and> list_all is_alpha month \<and> month \<noteq> []
                \<and> list_all is_digit year \<and> length year = 4
                \<and> list_all is_digit hour \<and> length hour \<in> {1, 2}
                \<and> list_all is_digit minute \<and> length minute = 2
                \<and> list_all is_digit second \<and> length second = 2
                \<and> parseAppleScriptDate h (JStr s) =
                    (case indexOf monthNames month of
                       None \<Rightarrow> None
                     | Some i \<Rightarrow>
                         Some (Date_of_fields h (parseInt year) (int i) (parseInt day)
                                 (parseInt hour) (parseInt minute) (parseInt second))))))
   \<and> length monthNames = 12
   \<and> (indexOf monthNames m = Some i \<longleftrightarrow> i < 12 \<and> monthNames ! i = m)
   \<and> (indexOf monthNames m = None \<longleftrightarrow> m \<notin> set monthNames)"
proof -
  have fallback:
    "s \<noteq> [] \<and> s \<noteq> ''missing value''
        \<and> Date_new h (replace_first '' at '' '' '' (regex_replace weekdayRegex [] s)) = None \<longrightarrow>
        (case rsearch dateTextRegex s of
           None \<Rightarrow> parseAppleScriptDate h (JStr s) = None
         | Some (caps, rest) \<Rightarrow>
             (\<exists>day month year hour minute second pre.
                caps = [day, month, year, hour, minute, second]
                \<and> s = pre @ day @ '' '' @ month @ '' '' @ year @ '' at '' @ hour @ '':'' @ minute
                       @ '':'' @ second @ rest
                \<and> list_all is_digit day \<and> length day \<in> {1, 2}
                \<and> list_all is_alpha month \<and> month \<noteq> []
                \<and> list_all is_digit year \<and> length year = 4
                \<and> list_all is_digit hour \<and> length hour \<in> {1, 2}
                \<and> list_all is_digit minute \<and> length minute = 2
                \<and> list_all is_digit second \<and> length second = 2
                \<and> parseAppleScriptDate h (JStr s) =
                    (case indexOf monthNames month of
                       None \<Rightarrow> None
                     | Some i \<Rightarrow>
                         Some (Date_of_fields h (parseInt year) (int i) (parseInt day)
                                 (parseInt hour) (parseInt minute) (parseInt second)))))"
  proof (intro impI, elim conjE)
    assume a: "s \<noteq> []" "s \<noteq> ''missing value''"
      "Date_new h (replace_first '' at '' '' '' (regex_replace weekdayRegex [] s)) = None"
    show "case rsearch dateTextRegex s of
           None \<Rightarrow> parseAppleScriptDate h (JStr s) = None
         | Some (caps, rest) \<Rightarrow>
             (\<exists>day month year hour minute second pre.
                caps = [day, month, year, hour, minute, second]
                \<and> s = pre @ day @ '' '' @ month @ '' '' @ year @ '' at '' @ hour @ '':'' @ minute
                       @ '':'' @ second @ rest
                \<and> list_all is_digit day \<and> length day \<in> {1, 2}
                \<and> list_all is_alpha month \<and> month \<noteq> []
                \<and> list_all is_digit year \<and> length year = 4
                \<and> list_all is_digit hour \<and> length hour \<in> {1, 2}
                \<and> list_all is_digit minute \<and> length minute = 2
                \<and> list_all is_digit second \<and> length second = 2
                \<and> parseAppleScriptDate h (JStr s) =
                    (case indexOf monthNames month of
                       None \<Rightarrow> None
                     | Some i \<Rightarrow>
                         Some (Date_of_fields h (parseInt year) (int i) (parseInt day)
                                 (parseInt hour) (parseInt minute) (parseInt second))))"
    proof (cases "rsearch dateTextRegex s")
      case None
      then show ?thesis using parse_no_match [OF a None] by simp
    next
      case (Some m)
      obtain caps rest where m: "m = (caps, rest)" by (cases m)
      from parse_fallback [OF a Some [unfolded m]] show ?thesis
        unfolding Some m by simp
    qed
  qed
  have table: "(indexOf monthNames m = Some i \<longleftrightarrow> i < 12 \<and> monthNames ! i = m)"
    using indexOf_Some_iff [OF monthNames_distinct(1), of m i] monthNames_distinct(2) by simp
  have generic: "s \<noteq> [] \<and> s \<noteq> ''missing value''
        \<and> Date_new h (replace_first '' at '' '' '' (regex_replace weekdayRegex [] s)) = Some d \<longrightarrow>
        parseAppleScriptDate h (JStr s) = Some d"
    using parse_generic [of s h d] by blast
  have caught: "parse_body h v = Inl exn \<longrightarrow> parseAppleScriptDate h v = None"
    using parse_caught [of h v exn] by blast
  from parse_sentinels [of h] caught generic fallback monthNames_distinct(2) table
    indexOf_None_iff [of monthNames m]
  show ?thesis by (intro conjI)
qed

theorem parseAppleScriptDate_total_witness:
  "regex_replace weekdayRegex [] ''Wednesday 6 August 2025 at 20:45:46'' = ''6 August 2025 at 20:45:46''
   \<and> Date_new ref_host (replace_first '' at '' '' ''
         (regex_replace weekdayRegex [] ''Wednesday 6 August 2025 at 20:45:46'')) =
        Some \<lparr>c_year = 2025, c_month = 7, c_day = 6, c_hour = 20, c_minute = 45, c_second = 46\<rparr>
   \<and> parseAppleScriptDate ref_host (JStr ''Wednesday 6 August 2025 at 20:45:46'') =
        Some \<lparr>c_year = 2025, c_month = 7, c_day = 6, c_hour = 20, c_minute = 45, c_second = 46\<rparr>
   \<and> ''Wednesday 6 August 2025 at 20:45:46 at home'' \<noteq> []
   \<and> ''Wednesday 6 August 2025 at 20:45:46 at home'' \<noteq> ''missing value''
   \<and> replace_first '' at '' '' ''
         (regex_replace weekdayRegex [] ''Wednesday 6 August 2025 at 20:45:46 at home'') =
        ''6 August 2025 20:45:46 at home''
   \<and> Date_new ref_host ''6 August 2025 20:45:46 at home'' = None
   \<and> rsearch dateTextRegex ''Wednesday 6 August 2025 at 20:45:46 at home'' =
        Some ([''6'', ''August'', ''2025'', ''20'', ''45'', ''46''], '' at home'')
   \<and> parseAppleScriptDate ref_host (JStr ''Wednesday 6 August 2025 at 20:45:46 at home'') =
        Some \<lparr>c_year = 2025, c_month = 7, c_day = 6, c_hour = 20, c_minute = 45, c_second = 46\<rparr>
   \<and> parseAppleScriptDate ref_host (JStr ''Wednesday 6 august 2025 at 20:45:46 at home'') = None
   \<and> parseAppleScriptDate ref_host (JStr ''tomorrow'') = None
   \<and> parse_body ref_host (JNum 5) = Inl TypeError
   \<and> parseAppleScriptDate ref_host (JNum 5) = None
   \<and> indexOf monthNames ''August'' = Some 7
   \<and> indexOf monthNames ''Aug'' = None"
proof -
  have body: "parse_body ref_host (JNum 5) = Inl TypeError"
    by (simp add: parse_body_def)
  have caught: "parseAppleScriptDate ref_host (JNum 5) = None"
    using parseAppleScriptDate_total [where h = ref_host and v = "JNum 5" and exn = TypeError] body
    by blast
  have clean: "regex_replace weekdayRegex [] ''Wednesday 6 August 2025 at 20:45:46'' = ''6 August 2025 at 20:45:46''"
    "''Wednesday 6 August 2025 at 20:45:46 at home'' \<noteq> []"
    "''Wednesday 6 August 2025 at 20:45:46 at home'' \<noteq> ''missing value''"
    "replace_first '' at '' '' ''
         (regex_replace weekdayRegex [] ''Wednesday 6 August 2025 at 20:45:46 at home'') =
        ''6 August 2025 20:45:46 at home''"
    by code_simp+
  have generic_date: "Date_new ref_host (replace_first '' at '' '' ''
         (regex_replace weekdayRegex [] ''Wednesday 6 August 2025 at 20:45:46'')) =
        Some \<lparr>c_year = 2025, c_month = 7, c_day = 6, c_hour = 20, c_minute = 45, c_second = 46\<rparr>"
    by code_simp
  have generic: "parseAppleScriptDate ref_host (JStr ''Wednesday 6 August 2025 at 20:45:46'') =
        Some \<lparr>c_year = 2025, c_month = 7, c_day = 6, c_hour = 20, c_minute = 45, c_second = 46\<rparr>"
    using parseAppleScriptDate_total
            [where h = ref_host and s = "''Wednesday 6 August 2025 at 20:45:46''"
               and d = "\<lparr>c_year = 2025, c_month = 7, c_day = 6, c_hour = 20, c_minute = 45,
                           c_second = 46\<rparr>"]
      generic_date
    by simp
  have evals:
    "Date_new ref_host ''6 August 2025 20:45:46 at home'' = None"
    "rsearch dateTextRegex ''Wednesday 6 August 2025 at 20:45:46 at home'' =
        Some ([''6'', ''August'', ''2025'', ''20'', ''45'', ''46''], '' at home'')"
    "parseAppleScriptDate ref_host (JStr ''Wednesday 6 August 2025 at 20:45:46 at home'') =
        Some \<lparr>c_year = 2025, c_month = 7, c_day = 6, c_hour = 20, c_minute = 45, c_second = 46\<rparr>"
    "parseAppleScriptDate ref_host (JStr ''Wednesday 6 august 2025 at 20:45:46 at home'') = None"
    "parseAppleScriptDate ref_host (JStr ''tomorrow'') = None"
    "indexOf monthNames ''August'' = Some 7"
    "indexOf monthNames ''Aug'' = None"
    by code_simp+
  from clean(1) generic_date generic clean(2,3,4) evals(1,2,3,4,5) body caught evals(6,7)
  show ?thesis by (intro conjI)
qed

subsection \<open>Decoding a record\<close>

lemma convert_field_upd:
  "convert_field h f m = m(f := map_option (convert_value h) (m f))"
  by (auto simp: convert_field_def convert_value_def fun_eq_iff split: option.splits)

lemma fold_convert_field:
  "distinct fs \<Longrightarrow>
   fold (convert_field h) fs m k = (if k \<in> set fs then map_option (convert_value h) (m k) else m k)"
proof (induction fs arbitrary: m)
  case Nil
  then show ?case by simp
next
  case (Cons f fs)
  from Cons.prems have d: "distinct fs" and nf: "f \<notin> set fs" by simp_all
  show ?case
    using Cons.IH [OF d, of "convert_field h f m"] nf
    by (auto simp: convert_field_upd)
qed

lemma dateFields_distinct: "distinct dateFields"
  by (simp add: dateFields_def)

lemma convertTodoDateFields_at:
  "convertTodoDateFields h todo k =
     (if k \<in> set dateFields then map_option (convert_value h \<circ> clean_sentinel) (todo k)
      else map_option clean_sentinel (todo k))"
  by (simp add: convertTodoDateFields_def fold_convert_field [OF dateFields_distinct]
        option.map_comp)

lemma decode_todo_other:
  "decode_todo h todo = Inr out \<Longrightarrow> k \<noteq> ''tagNames'' \<Longrightarrow> k \<noteq> ''tags'' \<Longrightarrow>
   out k = convertTodoDateFields h todo k"
  by (auto simp: decode_todo_def Let_def split: sum.splits)

lemma decode_todo_tags:
  "decode_todo h todo = Inr out \<Longrightarrow> out ''tagNames'' = None \<and> (\<exists>ts. out ''tags'' = Some (JArr ts))"
  by (auto simp: decode_todo_def Let_def split: sum.splits)

text \<open>
  C5 (as amended). In the record that \<open>convertTodoDateFields\<close> returns, a property whose
  raw value is the string \<open>missing value\<close> or the string \<open>null\<close> is \<open>null\<close>; any other
  string of a property that is not a date field is unchanged; a date field whose text does
  not parse keeps its raw text, and one that parses holds the ISO text of the date. The
  decoder of \<open>listTodosJson\<close> returns these values for every property but \<open>tagNames\<close>
  and \<open>tags\<close>: it removes \<open>tagNames\<close> and sets \<open>tags\<close> to a list of names.
\<close>

theorem sentinel_normalization:
  "(todo k = Some (JStr ''missing value'') \<or> todo k = Some (JStr ''null'') \<longrightarrow>
      convertTodoDateFields h todo k = Some JNull)
   \<and> (todo k = Some (JStr s) \<and> s \<noteq> ''missing value'' \<and> s \<noteq> ''null'' \<and> k \<notin> set dateFields \<longrightarrow>
      convertTodoDateFields h todo k = Some (JStr s))
   \<and> (todo k = Some (JStr s) \<and> s \<noteq> ''missing value'' \<and> s \<noteq> ''null'' \<and> k \<in> set dateFields
        \<and> parseAppleScriptDate h (JStr s) = None \<longrightarrow>
      convertTodoDateFields h todo k = Some (JStr s))
   \<and> (todo k = Some (JStr s) \<and> s \<noteq> ''missing value'' \<and> s \<noteq> ''null'' \<and> k \<in> set dateFields
        \<and> parseAppleScriptDate h (JStr s) = Some d \<longrightarrow>
      convertTodoDateFields h todo k = Some (JStr (toISOString h d)))
   \<and> (decode_todo h todo = Inr out \<and> k \<noteq> ''tagNames'' \<and> k \<noteq> ''tags'' \<longrightarrow>
      out k = convertTodoDateFields h todo k)
   \<and> (decode_todo h todo = Inr out \<longrightarrow>
      out ''tagNames'' = None \<and> (\<exists>ts. out ''tags'' = Some (JArr ts)))"
proof -
  have sentinel: "todo k = Some (JStr ''missing value'') \<or> todo k = Some (JStr ''null'') \<longrightarrow>
      convertTodoDateFields h todo k = Some JNull"
    by (auto simp: convertTodoDateFields_at clean_sentinel_def convert_value_def)
  have plain: "todo k = Some (JStr s) \<and> s \<noteq> ''missing value'' \<and> s \<noteq> ''null'' \<and> k \<notin> set dateFields \<longrightarrow>
      convertTodoDateFields h todo k = Some (JStr s)"
    by (simp add: convertTodoDateFields_at clean_sentinel_def)
  have unparsed: "todo k = Some (JStr s) \<and> s \<noteq> ''missing value'' \<and> s \<noteq> ''null'' \<and> k \<in> set dateFields
        \<and> parseAppleScriptDate h (JStr s) = None \<longrightarrow>
      convertTodoDateFields h todo k = Some (JStr s)"
    by (simp add: convertTodoDateFields_at clean_sentinel_def convert_value_def)
  have parsed: "todo k = Some (JStr s) \<and> s \<noteq> ''missing value'' \<and> s \<noteq> ''null'' \<and> k \<in> set dateFields
        \<and> parseAppleScriptDate h (JStr s) = Some d \<longrightarrow>
      convertTodoDateFields h todo k = Some (JStr (toISOString h d))"
    using parse_sentinels(1) [of h]
    by (auto simp: convertTodoDateFields_at clean_sentinel_def convert_value_def)
  have other: "decode_todo h todo = Inr out \<and> k \<noteq> ''tagNames'' \<and> k \<noteq> ''tags'' \<longrightarrow>
      out k = convertTodoDateFields h todo k"
    using decode_todo_other [of h todo out k] by blast
  have tagged: "decode_todo h todo = Inr out \<longrightarrow>
      out ''tagNames'' = None \<and> (\<exists>ts. out ''tags'' = Some (JArr ts))"
    using decode_todo_tags [of h todo out] by blast
  from sentinel plain unparsed parsed other tagged show ?thesis
    by (intro conjI)
qed

theorem sentinel_normalization_witness:
  "raw_todo ''dueDate'' = Some (JStr ''missing value'')
   \<and> convertTodoDateFields ref_host raw_todo ''dueDate'' = Some JNull
   \<and> raw_todo ''notes'' = Some (JStr ''null'')
   \<and> convertTodoDateFields ref_host raw_todo ''notes'' = Some JNull
   \<and> raw_todo ''name'' = Some (JStr ''Call'')
   \<and> ''name'' \<notin> set dateFields
   \<and> convertTodoDateFields ref_host raw_todo ''name'' = Some (JStr ''Call'')
   \<and> raw_todo ''modificationDate'' = Some (JStr ''yesterday'')
   \<and> ''modificationDate'' \<in> set dateFields
   \<and> parseAppleScriptDate ref_host (JStr ''yesterday'') = None
   \<and> convertTodoDateFields ref_host raw_todo ''modificationDate'' = Some (JStr ''yesterday'')
   \<and> convertTodoDateFields ref_host raw_todo ''creationDate'' = Some (JStr ''2025-08-06T20:45:46.000Z'')
   \<and> decoded_field (decode_todo ref_host raw_todo) ''dueDate'' = Some JNull
   \<and> decoded_field (decode_todo ref_host raw_todo) ''tags'' = Some (JArr [''Work'', ''Urgent''])
   \<and> decoded_field (decode_todo ref_host raw_todo) ''tagNames'' = None"
proof -
  have raw:
    "raw_todo ''dueDate'' = Some (JStr ''missing value'')"
    "raw_todo ''notes'' = Some (JStr ''null'')"
    "raw_todo ''name'' = Some (JStr ''Call'')"
    "raw_todo ''modificationDate'' = Some (JStr ''yesterday'')"
    by (simp_all add: raw_todo_def)
  have side:
    "''name'' \<notin> set dateFields"
    "''modificationDate'' \<in> set dateFields"
    "parseAppleScriptDate ref_host (JStr ''yesterday'') = None"
    by code_simp+
  have due: "convertTodoDateFields ref_host raw_todo ''dueDate'' = Some JNull"
    using sentinel_normalization [of raw_todo "''dueDate''" ref_host] raw by blast
  have notes_null: "convertTodoDateFields ref_host raw_todo ''notes'' = Some JNull"
    using sentinel_normalization [of raw_todo "''notes''" ref_host] raw by blast
  have name_kept: "convertTodoDateFields ref_host raw_todo ''name'' = Some (JStr ''Call'')"
    using sentinel_normalization [of raw_todo "''name''" ref_host "''Call''"] raw side by simp
  have modif: "convertTodoDateFields ref_host raw_todo ''modificationDate'' = Some (JStr ''yesterday'')"
    using sentinel_normalization [of raw_todo "''modificationDate''" ref_host "''yesterday''"] raw side
    by simp
  have evals:
    "convertTodoDateFields ref_host raw_todo ''creationDate'' = Some (JStr ''2025-08-06T20:45:46.000Z'')"
    "decoded_field (decode_todo ref_host raw_todo) ''dueDate'' = Some JNull"
    "decoded_field (decode_todo ref_host raw_todo) ''tags'' = Some (JArr [''Work'', ''Urgent''])"
    "decoded_field (decode_todo ref_host raw_todo) ''tagNames'' = None"
    by code_simp+
  from raw side due notes_null name_kept modif evals show ?thesis
    by (intro conjI)
qed

text \<open>
  The claim as stated fails: \<open>tagNames\<close> is not a date field and its raw value is an
  ordinary string, yet the decoded record does not hold it.
\<close>

theorem sentinel_normalization_counterexample:
  "raw_todo ''tagNames'' = Some (JStr ''Work, Urgent'')
   \<and> ''tagNames'' \<notin> set dateFields
   \<and> decoded_field (decode_todo ref_host raw_todo) ''tagNames'' = None
   \<and> decoded_field (decode_todo ref_host raw_todo) ''tagNames'' \<noteq> Some (JStr ''Work, Urgent'')"
  by code_simp

subsection \<open>Validation of the input\<close>
























subsection \<open>Tag strings\<close>

lemma starts_with_iff: "starts_with s p \<longleftrightarrow> (\<exists>b. s = p @ b)"
  by (induction s p rule: starts_with.induct) auto

lemma includes_str_iff: "includes_str s p \<longleftrightarrow> (\<exists>a b. s = a @ p @ b)"
proof (induction s)
  case Nil
  then show ?case by auto
next
  case (Cons c cs)
  show ?case
  proof
    assume "includes_str (c # cs) p"
    then consider "starts_with (c # cs) p" | "includes_str cs p" by auto
    then show "\<exists>a b. c # cs = a @ p @ b"
    proof cases
      case 1
      then obtain b where "c # cs = p @ b" by (auto simp: starts_with_iff)
      then have "c # cs = [] @ p @ b" by simp
      then show ?thesis by blast
    next
      case 2
      with Cons.IH obtain a b where "cs = a @ p @ b" by auto
      then have "c # cs = (c # a) @ p @ b" by simp
      then show ?thesis by blast
    qed
  next
    assume "\<exists>a b. c # cs = a @ p @ b"
    then obtain a b where ab: "c # cs = a @ p @ b" by blast
    show "includes_str (c # cs) p"
    proof (cases a)
      case Nil
      with ab have "starts_with (c # cs) p" by (auto simp: starts_with_iff)
      then show ?thesis by simp
    next
      case (Cons x a')
      with ab have "cs = a' @ p @ b" by simp
      with Cons.IH have "includes_str cs p" by blast
      then show ?thesis by simp
    qed
  qed
qed

lemma split_acc_whole:
  "\<not> includes_str t '', '' \<Longrightarrow> split_acc acc t = [rev acc @ t]"
  by (induction acc t rule: split_acc.induct) auto

lemma split_acc_sep:
  "\<not> includes_str t '', '' \<Longrightarrow>
   split_acc acc (t @ '', '' @ rest) = (rev acc @ t) # split_acc [] rest"
proof (induction t arbitrary: acc)
  case Nil
  then show ?case by simp
next
  case (Cons c t)
  show ?case
  proof (cases t)
    case Nil
    with Cons.prems show ?thesis by auto
  next
    case (Cons d t')
    with Cons.prems have no: "\<not> includes_str t '', ''" and nm: "\<not> (c = CHR '','' \<and> d = CHR '' '')"
      by auto
    from Cons.IH [OF no, of "c # acc"] nm Cons show ?thesis by auto
  qed
qed

lemma split_join:
  "\<forall>t \<in> set ts. \<not> includes_str t '', '' \<Longrightarrow> ts \<noteq> [] \<Longrightarrow>
   split_comma_space (join '', '' ts) = ts"
  unfolding split_comma_space_def
proof (induction "'', ''" ts rule: join.induct)
  case 1
  then show ?case by simp
next
  case (2 x)
  then show ?case by (simp add: split_acc_whole)
next
  case (3 x y ys)
  then show ?case by (simp add: split_acc_sep [of x "[]", simplified])
qed

lemma join_empty: "join '', '' ts = [] \<Longrightarrow> ts = [] \<or> ts = [[]]"
  by (induction "'', ''" ts rule: join.induct) auto

lemma tags_decode_join:
  assumes "\<forall>t \<in> set ts. \<not> includes_str t '', ''" and "ts \<noteq> [[]]"
  shows "tags_of (Some (JStr (join '', '' ts))) = Inr ts"
proof (cases "join '', '' ts = []")
  case True
  with join_empty assms(2) have "ts = []" by blast
  then show ?thesis by (simp add: tags_of_def)
next
  case False
  then have "ts \<noteq> []" by auto
  from split_join [OF assms(1) this] False show ?thesis
    by (simp add: tags_of_def)
qed

lemma join_without_separator:
  "\<not> includes_str w '', '' \<Longrightarrow> join '', '' ts = w \<Longrightarrow> ts = [w] \<or> ts = [] \<and> w = []"
proof (induction "'', ''" ts rule: join.induct)
  case 1
  then show ?case by simp
next
  case (2 x)
  then show ?case by simp
next
  case (3 x y ys)
  then have "w = x @ '', '' @ join '', '' (y # ys)" by simp
  then have "includes_str w '', ''" unfolding includes_str_iff by blast
  with 3 show ?case by simp
qed

lemma sentinels_without_separator:
  "\<not> includes_str ''null'' '', ''" "\<not> includes_str ''missing value'' '', ''"
  by code_simp+

lemma tagNames_not_date: "''tagNames'' \<notin> set dateFields"
  by (simp add: dateFields_def)

lemma decoded_tags:
  "decoded_field (decode_todo h todo) ''tags'' =
     (case tags_of (map_option clean_sentinel (todo ''tagNames'')) of
        Inl exn \<Rightarrow> None
      | Inr ts \<Rightarrow> Some (JArr ts))"
  by (simp add: decoded_field_def decode_todo_def Let_def convertTodoDateFields_at
        tagNames_not_date split: sum.split)

lemma decoded_tags_join:
  assumes "\<forall>t \<in> set ts. \<not> includes_str t '', ''"
    and "ts \<noteq> [[]]" and "ts \<noteq> [''null'']" and "ts \<noteq> [''missing value'']"
    and "todo ''tagNames'' = Some (JStr (join '', '' ts))"
  shows "decoded_field (decode_todo h todo) ''tags'' = Some (JArr ts)"
proof -
  have "join '', '' ts \<noteq> ''null''"
    using join_without_separator [OF sentinels_without_separator(1), of ts] assms(3) by auto
  moreover have "join '', '' ts \<noteq> ''missing value''"
    using join_without_separator [OF sentinels_without_separator(2), of ts] assms(4) by auto
  ultimately have "clean_sentinel (JStr (join '', '' ts)) = JStr (join '', '' ts)"
    by (simp add: clean_sentinel_def)
  then show ?thesis
    using assms(5) tags_decode_join [OF assms(1,2)] by (simp add: decoded_tags)
qed

lemma decoded_tags_empty:
  assumes "todo ''tagNames'' = None \<or> todo ''tagNames'' = Some JNull
           \<or> todo ''tagNames'' = Some (JStr [])"
  shows "decoded_field (decode_todo h todo) ''tags'' = Some (JArr [])"
  using assms by (auto simp: decoded_tags tags_of_def clean_sentinel_def)

text \<open>
  C8 (as amended). Take a list of tag names none of which contains the separator comma,
  space, and which is not the single name that is empty, \<open>null\<close> or \<open>missing value\<close>.
  When the \<open>tagNames\<close> of a raw record is the list joined with the separator, the decoder
  of \<open>listTodosJson\<close> returns that list, in order, as the \<open>tags\<close> of the record. The empty
  list is joined to the empty string, and the decoder gives the empty list for a
  \<open>tagNames\<close> that is empty, \<open>null\<close> or missing.
\<close>

theorem tags_round_trip:
  "((\<forall>t \<in> set ts. \<not> includes_str t '', '')
      \<and> ts \<noteq> [[]] \<and> ts \<noteq> [''null''] \<and> ts \<noteq> [''missing value'']
      \<and> todo ''tagNames'' = Some (JStr (join '', '' ts)) \<longrightarrow>
      decoded_field (decode_todo h todo) ''tags'' = Some (JArr ts))
   \<and> join '', '' [] = []
   \<and> (todo ''tagNames'' = None \<or> todo ''tagNames'' = Some JNull
        \<or> todo ''tagNames'' = Some (JStr []) \<longrightarrow>
      decoded_field (decode_todo h todo) ''tags'' = Some (JArr []))"
proof -
  have round: "(\<forall>t \<in> set ts. \<not> includes_str t '', '')
      \<and> ts \<noteq> [[]] \<and> ts \<noteq> [''null''] \<and> ts \<noteq> [''missing value'']
      \<and> todo ''tagNames'' = Some (JStr (join '', '' ts)) \<longrightarrow>
      decoded_field (decode_todo h todo) ''tags'' = Some (JArr ts)"
    using decoded_tags_join [of ts todo h] by blast
  have empty: "todo ''tagNames'' = None \<or> todo ''tagNames'' = Some JNull
        \<or> todo ''tagNames'' = Some (JStr []) \<longrightarrow>
      decoded_field (decode_todo h todo) ''tags'' = Some (JArr [])"
    using decoded_tags_empty [of todo h] by blast
  have nil: "join '', '' [] = []" by simp
  from round nil empty show ?thesis by (intro conjI)
qed

theorem tags_round_trip_witness:
  "\<not> includes_str ''Work'' '', ''
   \<and> \<not> includes_str ''a,b'' '', ''
   \<and> \<not> includes_str ''Urgent'' '', ''
   \<and> tagged_record [''Work'', ''a,b'', ''Urgent''] ''tagNames'' = Some (JStr ''Work, a,b, Urgent'')
   \<and> decoded_field (decode_todo ref_host (tagged_record [''Work'', ''a,b'', ''Urgent''])) ''tags''
       = Some (JArr [''Work'', ''a,b'', ''Urgent''])
   \<and> tagged_record [] ''tagNames'' = Some (JStr [])
   \<and> decoded_field (decode_todo ref_host (tagged_record [])) ''tags'' = Some (JArr [])
   \<and> decoded_field (decode_todo ref_host raw_todo) ''tags'' = Some (JArr [''Work'', ''Urgent''])"
proof -
  have side:
    "\<not> includes_str ''Work'' '', ''"
    "\<not> includes_str ''a,b'' '', ''"
    "\<not> includes_str ''Urgent'' '', ''"
    "tagged_record [''Work'', ''a,b'', ''Urgent''] ''tagNames'' = Some (JStr ''Work, a,b, Urgent'')"
    "tagged_record [] ''tagNames'' = Some (JStr [])"
    by code_simp+
  have joined: "tagged_record [''Work'', ''a,b'', ''Urgent''] ''tagNames''
                  = Some (JStr (join '', '' [''Work'', ''a,b'', ''Urgent'']))"
    by (simp add: tagged_record_def)
  have hyp: "(\<forall>t \<in> set [''Work'', ''a,b'', ''Urgent'']. \<not> includes_str t '', '')
             \<and> [''Work'', ''a,b'', ''Urgent''] \<noteq> [[]]
             \<and> [''Work'', ''a,b'', ''Urgent''] \<noteq> [''null'']
             \<and> [''Work'', ''a,b'', ''Urgent''] \<noteq> [''missing value'']"
    using side(1,2,3) by simp
  have round: "decoded_field (decode_todo ref_host (tagged_record [''Work'', ''a,b'', ''Urgent''])) ''tags''
       = Some (JArr [''Work'', ''a,b'', ''Urgent''])"
    using tags_round_trip
            [where ts = "[''Work'', ''a,b'', ''Urgent'']" and h = ref_host
               and todo = "tagged_record [''Work'', ''a,b'', ''Urgent'']"]
      hyp joined
    by blast
  have empty: "decoded_field (decode_todo ref_host (tagged_record [])) ''tags'' = Some (JArr [])"
    using tags_round_trip [where h = ref_host and todo = "tagged_record []"] side(5) by blast
  have raw: "decoded_field (decode_todo ref_host raw_todo) ''tags'' = Some (JArr [''Work'', ''Urgent''])"
    by code_simp
  from side(1,2,3,4) round side(5) empty raw show ?thesis
    by (intro conjI)
qed

text \<open>
  The claim as stated fails: a tag name that contains comma, space comes back as two
  names, and the single tag name \<open>null\<close> comes back as no name at all.
\<close>

theorem tags_round_trip_counterexample:
  "tagged_record [''a, b''] ''tagNames'' = Some (JStr (join '', '' [''a, b'']))
   \<and> decoded_field (decode_todo ref_host (tagged_record [''a, b''])) ''tags''
       = Some (JArr [''a'', ''b''])
   \<and> decoded_field (decode_todo ref_host (tagged_record [''a, b''])) ''tags''
       \<noteq> Some (JArr [''a, b''])
   \<and> tagged_record [''null''] ''tagNames'' = Some (JStr (join '', '' [''null'']))
   \<and> decoded_field (decode_todo ref_host (tagged_record [''null''])) ''tags'' = Some (JArr [])"
  by code_simp

subsection \<open>Classification of a failure\<close>

text \<open>
  What \<open>executeAppleScript\<close> does with the message of a failure: the tests are tried in
  the order of the source, and the first that holds decides.
\<close>

lemma classification_order:
  assumes "osascript script = Failed msg"
  shows "(includes_str msg ''not found'' \<longrightarrow>
            executeAppleScript osascript script = Inl (Error not_found_message))
         \<and> (\<not> includes_str msg ''not found''
              \<and> (includes_str msg ''Things3'' \<or> includes_str msg ''not running'') \<longrightarrow>
            executeAppleScript osascript script = Inl (Error app_error_message))
         \<and> (\<not> includes_str msg ''not found'' \<and> \<not> includes_str msg ''Things3''
              \<and> \<not> includes_str msg ''not running''
              \<and> includes_str msg ''Application isn't running'' \<longrightarrow>
            executeAppleScript osascript script = Inl (Error not_running_message))
         \<and> (\<not> includes_str msg ''not found'' \<and> \<not> includes_str msg ''Things3''
              \<and> \<not> includes_str msg ''not running''
              \<and> \<not> includes_str msg ''Application isn't running'' \<longrightarrow>
            executeAppleScript osascript script = Inl (Error msg))
         \<and> (includes_str msg p \<longleftrightarrow> (\<exists>a b. msg = a @ p @ b))"
  using assms includes_str_iff [of msg p]
  by (simp add: executeAppleScript_def not_found_message_def app_error_message_def
        not_running_message_def)

lemma messages_differ:
  "app_error_message \<noteq> not_running_message" "not_found_message \<noteq> not_running_message"
  by (simp_all add: app_error_message_def not_running_message_def not_found_message_def)

text \<open>No message that names the application reaches the branch for an application that is not running.\<close>

lemma not_running_branch_shadowed:
  assumes "osascript script = Failed msg" and "includes_str msg ''Things3''"
  shows "executeAppleScript osascript script \<noteq> Inl (Error not_running_message)"
  using assms messages_differ
  by (simp add: executeAppleScript_def not_found_message_def app_error_message_def
        not_running_message_def)

text \<open>
  C9. The claim is not met by the code. The message with which the host reports an
  application that is not running names the application: it contains
  \<open>Application isn't running\<close> and \<open>Things3\<close>, does not contain \<open>not found\<close>, and
  \<open>executeAppleScript\<close> classifies it as the generic app error, not as the app-not-running
  error that the later branch of the source holds for it.
\<close>

theorem not_running_classified_generic:
  "includes_str ''Things3 got an error: Application isn't running.'' ''Application isn't running''
   \<and> includes_str ''Things3 got an error: Application isn't running.'' ''Things3''
   \<and> \<not> includes_str ''Things3 got an error: Application isn't running.'' ''not found''
   \<and> executeAppleScript
        (failing_bridge ''Things3 got an error: Application isn't running.'') ''tell''
       = Inl (Error app_error_message)
   \<and> executeAppleScript
        (failing_bridge ''Things3 got an error: Application isn't running.'') ''tell''
       \<noteq> Inl (Error not_running_message)"
  by code_simp

subsection \<open>The two copies of the creation builder\<close>

lemma given_SomeD: "given x = Some d \<Longrightarrow> d \<noteq> []"
  by (cases x) (auto simp: given_def split: if_splits)

lemma list_check_cases:
  "(case (case given (list_opt opts) of
            Some l \<Rightarrow> if l \<notin> set validLists then Inl invalid_list_error else Inr ()
          | None \<Rightarrow> Inr ())
    of Inl e \<Rightarrow> Inl e | Inr u \<Rightarrow> Inr script) =
   (case list_check opts of Some e \<Rightarrow> Inl e | None \<Rightarrow> Inr script)"
  by (simp add: list_check_def split: option.split)

lemma addTodo_validation:
  "addTodo h ttl opts =
     (case validation h ttl opts of
        Some e \<Rightarrow> Inl e
      | None \<Rightarrow>
          Inr (tell_line @ ''  set newToDo to make new to do with properties {'' @
               join '', '' (todo_properties ttl opts) @ ''}'' @ attach_clause opts @ ''\<newline>'' @
               due_statements h opts @ ''end tell''))"
proof (cases "blank ttl")
  case True
  then show ?thesis by (simp add: addTodo_def validation_def)
next
  case nb: False
  show ?thesis
  proof (cases "given (due opts)")
    case None
    then show ?thesis
      using nb
      by (simp add: addTodo_def validation_def due_statements_def list_check_cases
            split: option.split)
  next
    case (Some d)
    note ne = given_SomeD [OF Some]
    show ?thesis
    proof (cases "regex_test dateRegex d")
      case False
      then show ?thesis
        using nb Some ne by (simp add: addTodo_def validation_def validateDateString_def)
    next
      case re: True
      show ?thesis
      proof (cases "Date_new h d")
        case None
        then show ?thesis
          using nb Some ne re by (simp add: addTodo_def validation_def validateDateString_def)
      next
        case (Some date)
        then show ?thesis
          using nb \<open>given (due opts) = Some d\<close> ne re
          by (simp add: addTodo_def validation_def validateDateString_def due_statements_def
                list_check_cases split: option.split)
      qed
    qed
  qed
qed

lemma addTodo_alt_validation:
  "addTodo_alt h ttl opts =
     (case validation h ttl opts of
        Some e \<Rightarrow> Inl e
      | None \<Rightarrow>
          Inr (tell_line @ ''  set newToDo to make new to do with properties {'' @
               join '', '' (alt_properties h ttl opts) @ ''}'' @ attach_clause opts @
               ''\<newline>end tell''))"
proof (cases "blank ttl")
  case True
  then show ?thesis by (simp add: addTodo_alt_def validation_def)
next
  case nb: False
  show ?thesis
  proof (cases "given (due opts)")
    case None
    then show ?thesis
      using nb by (simp add: addTodo_alt_def validation_def list_check_cases)
  next
    case (Some d)
    show ?thesis
    proof (cases "regex_test dateRegex d")
      case False
      then show ?thesis
        using nb Some by (simp add: addTodo_alt_def validation_def)
    next
      case re: True
      show ?thesis
      proof (cases "Date_new h d")
        case None
        then show ?thesis
          using nb Some re by (simp add: addTodo_alt_def validation_def)
      next
        case (Some date)
        then show ?thesis
          using nb \<open>given (due opts) = Some d\<close> re
          by (simp add: addTodo_alt_def validation_def list_check_cases)
      qed
    qed
  qed
qed

lemma attach_clause_last:
  "attach_clause opts = [] \<or> last (attach_clause opts) = dquote"
  by (simp add: attach_clause_def dquote_def split: option.splits)

lemma truthy_given: "truthy x \<Longrightarrow> \<exists>d. x = Some d \<and> given x = Some d"
  by (cases x) (simp_all add: given_def)

lemma not_truthy_given: "\<not> truthy x \<Longrightarrow> given x = None"
  by (simp add: given_def)

lemma alt_differs:
  "tell_line @ ''  set newToDo to make new to do with properties {'' @ props1 @ ''}'' @
     attach_clause opts @ ''\<newline>'' @ ''  '' @ stmts @ ''\<newline>'' @
     ''  set due date of newToDo to tempDate\<newline>'' @ ''end tell''
   \<noteq> tell_line @ ''  set newToDo to make new to do with properties {'' @ props2 @ ''}'' @
     attach_clause opts @ ''\<newline>end tell''"
  (is "?s1 \<noteq> ?s2")
proof
  assume eq: "?s1 = ?s2"
  define A where "A = tell_line @ ''  set newToDo to make new to do with properties {'' @ props1 @
     ''}'' @ attach_clause opts @ ''\<newline>'' @ ''  '' @ stmts @ ''\<newline>'' @
     ''  set due date of newToDo to tempDat''"
  define B where "B = tell_line @ ''  set newToDo to make new to do with properties {'' @ props2 @
     ''}''"
  have s1: "?s1 = (A @ ''e'') @ ''\<newline>end tell''"
    by (simp add: A_def)
  have s2: "?s2 = (B @ attach_clause opts) @ ''\<newline>end tell''"
    by (simp add: B_def)
  from eq have "(A @ ''e'') @ ''\<newline>end tell'' = (B @ attach_clause opts) @ ''\<newline>end tell''"
    unfolding s1 s2 .
  then have ab: "A @ ''e'' = B @ attach_clause opts"
    by (simp only: append_same_eq)
  have "last (A @ ''e'') = CHR ''e''" by simp
  moreover have "last (B @ attach_clause opts) = CHR ''}'' \<or> last (B @ attach_clause opts) = dquote"
    using attach_clause_last [of opts] by (auto simp: B_def)
  ultimately show False
    using ab by (auto simp: dquote_def)
qed

text \<open>
  C10. The two copies of \<open>addTodo\<close> raise the same error on the same input. For a
  request without a due date they build the same script, character for character. For a
  request with a due date that both accept, the scripts differ: the first appends the
  statements that set the components of \<open>tempDate\<close> after the creation statement and
  assigns it to the due date; the second puts the date, as the host's \<open>toDateString\<close>
  writes it, into the property list of the creation statement.
\<close>

theorem two_implementations:
  "(addTodo h ttl opts = Inl e \<longleftrightarrow> addTodo_alt h ttl opts = Inl e)
   \<and> (\<not> truthy (due opts) \<longrightarrow> addTodo h ttl opts = addTodo_alt h ttl opts)
   \<and> (truthy (due opts) \<and> addTodo h ttl opts = Inr s1 \<and> addTodo_alt h ttl opts = Inr s2 \<longrightarrow>
        s1 \<noteq> s2
        \<and> (\<exists>d date. due opts = Some d \<and> Date_new h d = Some date
             \<and> s1 = tell_line @ ''  set newToDo to make new to do with properties {'' @
                    join '', '' (todo_properties ttl opts) @ ''}'' @ attach_clause opts @
                    ''\<newline>'' @ ''  '' @ generateAppleScriptDate h date ''tempDate'' @ ''\<newline>'' @
                    ''  set due date of newToDo to tempDate\<newline>'' @ ''end tell''
             \<and> s2 = tell_line @ ''  set newToDo to make new to do with properties {'' @
                    join '', '' (alt_properties h ttl opts) @ ''}'' @ attach_clause opts @
                    ''\<newline>end tell''
             \<and> ''due date:date '' @ [dquote] @ toDateString h date @ [dquote]
                  \<in> set (alt_properties h ttl opts)))"
proof -
  have errors: "addTodo h ttl opts = Inl e \<longleftrightarrow> addTodo_alt h ttl opts = Inl e"
    by (simp add: addTodo_validation addTodo_alt_validation split: option.split)
  have nodue: "\<not> truthy (due opts) \<longrightarrow> addTodo h ttl opts = addTodo_alt h ttl opts"
  proof
    assume "\<not> truthy (due opts)"
    then have g: "given (due opts) = None" by (rule not_truthy_given)
    then have "due_statements h opts = []" "alt_properties h ttl opts = todo_properties ttl opts"
      by (simp_all add: due_statements_def alt_properties_def todo_properties_def)
    then show "addTodo h ttl opts = addTodo_alt h ttl opts"
      by (simp add: addTodo_validation addTodo_alt_validation split: option.split)
  qed
  have withdue: "truthy (due opts) \<and> addTodo h ttl opts = Inr s1 \<and> addTodo_alt h ttl opts = Inr s2 \<longrightarrow>
        s1 \<noteq> s2
        \<and> (\<exists>d date. due opts = Some d \<and> Date_new h d = Some date
             \<and> s1 = tell_line @ ''  set newToDo to make new to do with properties {'' @
                    join '', '' (todo_properties ttl opts) @ ''}'' @ attach_clause opts @
                    ''\<newline>'' @ ''  '' @ generateAppleScriptDate h date ''tempDate'' @ ''\<newline>'' @
                    ''  set due date of newToDo to tempDate\<newline>'' @ ''end tell''
             \<and> s2 = tell_line @ ''  set newToDo to make new to do with properties {'' @
                    join '', '' (alt_properties h ttl opts) @ ''}'' @ attach_clause opts @
                    ''\<newline>end tell''
             \<and> ''due date:date '' @ [dquote] @ toDateString h date @ [dquote]
                  \<in> set (alt_properties h ttl opts))"
  proof (intro impI, elim conjE)
    assume tr: "truthy (due opts)" and r1: "addTodo h ttl opts = Inr s1"
      and r2: "addTodo_alt h ttl opts = Inr s2"
    from truthy_given [OF tr] obtain d where d: "due opts = Some d" "given (due opts) = Some d"
      by blast
    from r1 have v: "validation h ttl opts = None"
      by (simp add: addTodo_validation split: option.splits)
    then have "Date_new h d \<noteq> None"
      using d(2) by (auto simp: validation_def split: if_splits)
    then obtain date where date: "Date_new h d = Some date" by blast
    have ds: "due_statements h opts =
                ''  '' @ generateAppleScriptDate h date ''tempDate'' @ ''\<newline>'' @
                ''  set due date of newToDo to tempDate\<newline>''"
      using d(2) date by (simp add: due_statements_def)
    have e1: "s1 = tell_line @ ''  set newToDo to make new to do with properties {'' @
                    join '', '' (todo_properties ttl opts) @ ''}'' @ attach_clause opts @
                    ''\<newline>'' @ ''  '' @ generateAppleScriptDate h date ''tempDate'' @ ''\<newline>'' @
                    ''  set due date of newToDo to tempDate\<newline>'' @ ''end tell''"
      using r1 v ds by (simp add: addTodo_validation)
    have e2: "s2 = tell_line @ ''  set newToDo to make new to do with properties {'' @
                    join '', '' (alt_properties h ttl opts) @ ''}'' @ attach_clause opts @
                    ''\<newline>end tell''"
      using r2 v by (simp add: addTodo_alt_validation)
    have inprops: "''due date:date '' @ [dquote] @ toDateString h date @ [dquote]
                  \<in> set (alt_properties h ttl opts)"
      using d(2) date by (simp add: alt_properties_def dquote_def)
    have ne: "s1 \<noteq> s2"
      unfolding e1 e2 by (rule alt_differs)
    from ne d(1) date e1 e2 inprops
    show "s1 \<noteq> s2
        \<and> (\<exists>d date. due opts = Some d \<and> Date_new h d = Some date
             \<and> s1 = tell_line @ ''  set newToDo to make new to do with properties {'' @
                    join '', '' (todo_properties ttl opts) @ ''}'' @ attach_clause opts @
                    ''\<newline>'' @ ''  '' @ generateAppleScriptDate h date ''tempDate'' @ ''\<newline>'' @
                    ''  set due date of newToDo to tempDate\<newline>'' @ ''end tell''
             \<and> s2 = tell_line @ ''  set newToDo to make new to do with properties {'' @
                    join '', '' (alt_properties h ttl opts) @ ''}'' @ attach_clause opts @
                    ''\<newline>end tell''
             \<and> ''due date:date '' @ [dquote] @ toDateString h date @ [dquote]
                  \<in> set (alt_properties h ttl opts))"
      by blast
  qed
  from errors nodue withdue show ?thesis
    by (intro conjI)
qed

theorem two_implementations_witness:
  \<open>\<not> truthy (due tagged_options)
   \<and> addTodo ref_host ''Call'' tagged_options = addTodo_alt ref_host ''Call'' tagged_options
   \<and> addTodo_alt ref_host ''Call'' tagged_options =
       Inr (''tell application "Things3"\<newline>'' @
            ''  set newToDo to make new to do with properties {name:"Call", tag names:"Home"}\<newline>'' @
            ''end tell'')
   \<and> truthy (due buy_milk_options)
   \<and> addTodo_alt ref_host ''Buy milk'' buy_milk_options =
       Inr (''tell application "Things3"\<newline>'' @
            ''  set newToDo to make new to do with properties {name:"Buy milk", due date:date "Mon Jan 15 2024", tag names:"Home,Urgent"} at beginning of list "Today"\<newline>'' @
            ''end tell'')
   \<and> addTodo ref_host ''Buy milk'' buy_milk_options =
       Inr (''tell application "Things3"\<newline>'' @
            ''  set newToDo to make new to do with properties {name:"Buy milk", tag names:"Home,Urgent"} at beginning of list "Today"\<newline>'' @
            ''  set tempDate to current date\<newline>'' @
            ''  set month of tempDate to 1\<newline>'' @
            ''  set day of tempDate to 15\<newline>'' @
            ''  set year of tempDate to 2024\<newline>'' @
            ''  set time of tempDate to 0\<newline>'' @
            ''  set due date of newToDo to tempDate\<newline>'' @
            ''end tell'')
   \<and> addTodo ref_host ''Buy milk'' buy_milk_options
       \<noteq> addTodo_alt ref_host ''Buy milk'' buy_milk_options
   \<and> addTodo ref_host ''  '' buy_milk_options = Inl (Error ''To-do title cannot be empty'')
   \<and> addTodo_alt ref_host ''  '' buy_milk_options = Inl (Error ''To-do title cannot be empty'')\<close>
proof -
  have side: "\<not> truthy (due tagged_options)" "truthy (due buy_milk_options)"
    by code_simp+
  have alt_plain: \<open>addTodo_alt ref_host ''Call'' tagged_options =
       Inr (''tell application "Things3"\<newline>'' @
            ''  set newToDo to make new to do with properties {name:"Call", tag names:"Home"}\<newline>'' @
            ''end tell'')\<close>
    by code_simp
  have alt_due: \<open>addTodo_alt ref_host ''Buy milk'' buy_milk_options =
       Inr (''tell application "Things3"\<newline>'' @
            ''  set newToDo to make new to do with properties {name:"Buy milk", due date:date "Mon Jan 15 2024", tag names:"Home,Urgent"} at beginning of list "Today"\<newline>'' @
            ''end tell'')\<close>
    by code_simp
  have prim_due: \<open>addTodo ref_host ''Buy milk'' buy_milk_options =
       Inr (''tell application "Things3"\<newline>'' @
            ''  set newToDo to make new to do with properties {name:"Buy milk", tag names:"Home,Urgent"} at beginning of list "Today"\<newline>'' @
            ''  set tempDate to current date\<newline>'' @
            ''  set month of tempDate to 1\<newline>'' @
            ''  set day of tempDate to 15\<newline>'' @
            ''  set year of tempDate to 2024\<newline>'' @
            ''  set time of tempDate to 0\<newline>'' @
            ''  set due date of newToDo to tempDate\<newline>'' @
            ''end tell'')\<close>
    by code_simp
  have blank_prim: "addTodo ref_host ''  '' buy_milk_options = Inl (Error ''To-do title cannot be empty'')"
    by code_simp
  have same: "addTodo ref_host ''Call'' tagged_options = addTodo_alt ref_host ''Call'' tagged_options"
    using two_implementations [of ref_host "''Call''" tagged_options] side(1) by blast
  have differ: "addTodo ref_host ''Buy milk'' buy_milk_options
       \<noteq> addTodo_alt ref_host ''Buy milk'' buy_milk_options"
    using two_implementations [of ref_host "''Buy milk''" buy_milk_options] side(2)
    unfolding prim_due alt_due by blast
  have blank_alt: "addTodo_alt ref_host ''  '' buy_milk_options = Inl (Error ''To-do title cannot be empty'')"
    using two_implementations [of ref_host "''  ''" buy_milk_options] blank_prim by blast
  from side(1) same alt_plain side(2) alt_due prim_due differ blank_prim blank_alt
  show ?thesis by (intro conjI)
qed

end
